theory Spec2Isabelle
  imports Complex_Main "HOL-Library.Multiset"
begin

section \<open>Data model (app/models.py)\<close>

text \<open>
  The tables of \<^verbatim>\<open>app/models.py\<close> as records, one list of rows per table, in table
  order. The \<^verbatim>\<open>created_at\<close> column of an account and the surrogate key of a
  transaction are left out: no ledger operation reads them. Balances and amounts are
  Python integers (cents), hence \<^typ>\<open>int\<close>. A nullable column is an option.
\<close>

record account =
  acc_id :: int
  user_id :: int
  account_number :: string
  account_type :: string
  balance :: int
  is_frozen :: bool

record transaction =
  from_account_id :: "int option"
  to_account_id :: "int option"
  amount :: int
  transaction_type :: string
  description :: "string option"
  timestamp :: int

record database =
  accounts :: "account list"
  transactions :: "transaction list"

text \<open>\<^verbatim>\<open>Account.query.get(id)\<close> and \<^verbatim>\<open>Account.query.filter_by(account_number=n).first()\<close>.\<close>

definition Account_query_get :: "database \<Rightarrow> int \<Rightarrow> account option" where
  "Account_query_get db i = find (\<lambda>a. acc_id a = i) (accounts db)"

definition Account_query_by_number :: "database \<Rightarrow> string \<Rightarrow> account option" where
  "Account_query_by_number db n = find (\<lambda>a. account_number a = n) (accounts db)"

text \<open>
  Committing a changed \<^verbatim>\<open>balance\<close> attribute writes the new value to the row with
  the object's primary key.
\<close>

definition set_balance :: "int \<Rightarrow> int \<Rightarrow> account list \<Rightarrow> account list" where
  "set_balance i b rows = map (\<lambda>a. if acc_id a = i then a\<lparr>balance := b\<rparr> else a) rows"

text \<open>The schema's constraints: \<^verbatim>\<open>id\<close> is the primary key, \<^verbatim>\<open>account_number\<close> is unique.\<close>

definition primary_key_ok :: "database \<Rightarrow> bool" where
  "primary_key_ok db = distinct (map acc_id (accounts db))"

definition account_numbers_unique :: "database \<Rightarrow> bool" where
  "account_numbers_unique db = distinct (map account_number (accounts db))"

subsection \<open>Methods of Account\<close>

definition Account_deposit :: "account \<Rightarrow> int \<Rightarrow> account" where
  "Account_deposit self amount_cents = self\<lparr>balance := balance self + amount_cents\<rparr>"

definition Account_withdraw :: "account \<Rightarrow> int \<Rightarrow> bool \<times> account" where
  "Account_withdraw self amount_cents =
     (if balance self \<ge> amount_cents
      then (True, self\<lparr>balance := balance self - amount_cents\<rparr>)
      else (False, self))"

text \<open>
  \<^verbatim>\<open>sorted(sent + received, key=lambda x: x.timestamp, reverse=True)\<close>: Python's sort is
  stable, also with \<^verbatim>\<open>reverse=True\<close>, which is the stable sort on the negated key. The
  two relationship queries return their rows in table order.
\<close>

definition get_all_transactions :: "database \<Rightarrow> account \<Rightarrow> transaction list" where
  "get_all_transactions db self =
     (let sent = filter (\<lambda>t. from_account_id t = Some (acc_id self)) (transactions db);
          received = filter (\<lambda>t. to_account_id t = Some (acc_id self)) (transactions db);
          all_transactions = sent @ received
      in sort_key (\<lambda>x. - timestamp x) all_transactions)"

subsection \<open>generate_account_number\<close>

text \<open>
  \<^verbatim>\<open>random.randint(0, 9)\<close> yields one of ten values; the random source is the
  infinite sequence of the draws still to come. The loop has no bound, so the function
  is partial: \<^const>\<open>None\<close> stands for a run that never leaves the loop.
\<close>

datatype digit = D0 | D1 | D2 | D3 | D4 | D5 | D6 | D7 | D8 | D9

fun str_digit :: "digit \<Rightarrow> char" where
  "str_digit D0 = CHR ''0''"
| "str_digit D1 = CHR ''1''"
| "str_digit D2 = CHR ''2''"
| "str_digit D3 = CHR ''3''"
| "str_digit D4 = CHR ''4''"
| "str_digit D5 = CHR ''5''"
| "str_digit D6 = CHR ''6''"
| "str_digit D7 = CHR ''7''"
| "str_digit D8 = CHR ''8''"
| "str_digit D9 = CHR ''9''"

definition candidate :: "(nat \<Rightarrow> digit) \<Rightarrow> string" where
  "candidate rnd = map (\<lambda>i. str_digit (rnd i)) [0..<10]"

definition later_draws :: "(nat \<Rightarrow> digit) \<Rightarrow> nat \<Rightarrow> digit" where
  "later_draws rnd = (\<lambda>i. rnd (i + 10))"

partial_function (option) generate_account_number ::
  "database \<Rightarrow> (nat \<Rightarrow> digit) \<Rightarrow> string option" where
  "generate_account_number db rnd =
     (let account_num = candidate rnd;
          existing = Account_query_by_number db account_num
      in if existing = None then Some account_num
         else generate_account_number db (later_draws rnd))"

section \<open>Form data (app/forms.py)\<close>

subsection \<open>decimal.Decimal\<close>

text \<open>
  A \<^verbatim>\<open>DecimalField\<close> holds a finite \<^verbatim>\<open>decimal.Decimal\<close>: a signed coefficient and an
  exponent, of value \<open>coefficient * 10 ^ exponent\<close>. The routes compute
  \<^verbatim>\<open>int(form.amount.data * 100)\<close>. The product is exact and is then rounded to the
  default context's 28 significant digits, half to even; \<^verbatim>\<open>int\<close> truncates towards
  zero. A comparison of a Decimal with a float or an int is exact, so the bounds of a
  \<^verbatim>\<open>NumberRange\<close> are rationals: the float \<^verbatim>\<open>0.01\<close> is 5764607523034235 / 2^59.
\<close>

datatype decimal = Decimal (coefficient: int) (exponent: int)

definition dec_value :: "decimal \<Rightarrow> rat" where
  "dec_value d =
     (if 0 \<le> exponent d then of_int (coefficient d * 10 ^ nat (exponent d))
      else of_int (coefficient d) / of_int (10 ^ nat (- exponent d)))"

text \<open>The number of decimal digits of a coefficient's magnitude.\<close>

function ndigits :: "int \<Rightarrow> nat" where
  "ndigits n = (if n < 10 then 1 else Suc (ndigits (n div 10)))"
  by pat_completeness auto
termination
  by (relation "measure nat") auto

declare ndigits.simps [simp del]

definition round_half_even :: "int \<Rightarrow> nat \<Rightarrow> int" where
  "round_half_even n k =
     (let p = 10 ^ k; q = n div p; r = n mod p
      in if 2 * r > p \<or> (2 * r = p \<and> odd q) then q + 1 else q)"

definition context_prec :: nat where
  "context_prec = 28"

definition dec_fix :: "decimal \<Rightarrow> decimal" where
  "dec_fix d =
     (let c = coefficient d; n = ndigits \<bar>c\<bar>
      in if n \<le> context_prec then d
         else let k = n - context_prec;
                  m = round_half_even \<bar>c\<bar> k
              in if ndigits m > context_prec
                 then Decimal (sgn c * (m div 10)) (exponent d + int k + 1)
                 else Decimal (sgn c * m) (exponent d + int k))"

definition dec_mul_int :: "decimal \<Rightarrow> int \<Rightarrow> decimal" where
  "dec_mul_int d n = dec_fix (Decimal (coefficient d * n) (exponent d))"

definition py_int :: "decimal \<Rightarrow> int" where
  "py_int d =
     (if 0 \<le> exponent d then coefficient d * 10 ^ nat (exponent d)
      else sgn (coefficient d) * (\<bar>coefficient d\<bar> div 10 ^ nat (- exponent d)))"

definition to_cents :: "decimal \<Rightarrow> int" where
  "to_cents d = py_int (dec_mul_int d 100)"

definition float_0_01 :: rat where
  "float_0_01 = 5764607523034235 / 576460752303423488"

subsection \<open>Validators\<close>

text \<open>
  A string is a list of code points below 256. \<^verbatim>\<open>str.isspace\<close> and \<^verbatim>\<open>str.isdigit\<close>
  on that range, by code point (the digits, and the superscripts two, three and one);
  \<^verbatim>\<open>s.strip()\<close> is empty exactly when every character is a space.
\<close>

definition py_isspace :: "char \<Rightarrow> bool" where
  "py_isspace c =
     (let n = (of_char c :: nat)
      in (9 \<le> n \<and> n \<le> 13) \<or> (28 \<le> n \<and> n \<le> 32) \<or> n = 133 \<or> n = 160)"

definition py_isdigit :: "char \<Rightarrow> bool" where
  "py_isdigit c =
     (let n = (of_char c :: nat)
      in (48 \<le> n \<and> n \<le> 57) \<or> n = 178 \<or> n = 179 \<or> n = 185)"

definition blank :: "string \<Rightarrow> bool" where
  "blank s = list_all py_isspace s"

definition str_isdigit :: "string \<Rightarrow> bool" where
  "str_isdigit s = (s \<noteq> [] \<and> list_all py_isdigit s)"

text \<open>
  \<^verbatim>\<open>DataRequired\<close> wants truthy data, and for a string one that is not blank;
  \<^verbatim>\<open>Optional\<close> ends the field's validation with no error when the text is blank.
\<close>

definition DataRequired_int :: "int \<Rightarrow> bool" where
  "DataRequired_int i = (i \<noteq> 0)"

definition DataRequired_str :: "string \<Rightarrow> bool" where
  "DataRequired_str s = (\<not> blank s)"

definition DataRequired_dec :: "decimal \<Rightarrow> bool" where
  "DataRequired_dec d = (coefficient d \<noteq> 0)"

definition Length_ok :: "nat \<Rightarrow> nat \<Rightarrow> string \<Rightarrow> bool" where
  "Length_ok mn mx s = (mn \<le> length s \<and> length s \<le> mx)"

definition NumberRange :: "rat \<Rightarrow> rat \<Rightarrow> decimal \<Rightarrow> bool" where
  "NumberRange mn mx d = (mn \<le> dec_value d \<and> dec_value d \<le> mx)"

definition Optional_Length :: "nat \<Rightarrow> string \<Rightarrow> bool" where
  "Optional_Length mx s = (blank s \<or> length s \<le> mx)"

subsection \<open>TransferForm, DepositForm, WithdrawForm, CreateAccountForm\<close>

text \<open>
  The parsed data of a submitted form, one record field per form field. The CSRF token
  of a form and the login of the requester belong to the session layer: the token is
  taken as valid and the requester as logged in.
\<close>

record transfer_form =
  tf_from_account :: int
  tf_to_account_id :: string
  tf_amount :: decimal
  tf_description :: string

record deposit_form =
  df_account :: int
  df_amount :: decimal
  df_description :: string

record withdraw_form =
  wf_account :: int
  wf_amount :: decimal
  wf_description :: string

record create_account_form =
  caf_account_type :: string
  caf_initial_deposit :: decimal

datatype validation_error = OnlyDigits | DoesNotExist | DestinationIsFrozen

definition validate_to_account_id :: "database \<Rightarrow> string \<Rightarrow> validation_error option" where
  "validate_to_account_id db data =
     (if \<not> str_isdigit data then Some OnlyDigits
      else case Account_query_by_number db data of
             None \<Rightarrow> Some DoesNotExist
           | Some account \<Rightarrow> if is_frozen account then Some DestinationIsFrozen else None)"

text \<open>
  A form validates when no validator of any field reports an error. A \<^verbatim>\<open>SelectField\<close>
  accepts only a value among the choices the route gave it.
\<close>

definition TransferForm_validate :: "int list \<Rightarrow> database \<Rightarrow> transfer_form \<Rightarrow> bool" where
  "TransferForm_validate choices db form =
     (tf_from_account form \<in> set choices \<and> DataRequired_int (tf_from_account form)
      \<and> DataRequired_str (tf_to_account_id form) \<and> Length_ok 10 10 (tf_to_account_id form)
      \<and> validate_to_account_id db (tf_to_account_id form) = None
      \<and> DataRequired_dec (tf_amount form) \<and> NumberRange float_0_01 1000000 (tf_amount form)
      \<and> Optional_Length 255 (tf_description form))"

definition DepositForm_validate :: "int list \<Rightarrow> deposit_form \<Rightarrow> bool" where
  "DepositForm_validate choices form =
     (df_account form \<in> set choices \<and> DataRequired_int (df_account form)
      \<and> DataRequired_dec (df_amount form) \<and> NumberRange float_0_01 100000 (df_amount form)
      \<and> Optional_Length 255 (df_description form))"

definition WithdrawForm_validate :: "int list \<Rightarrow> withdraw_form \<Rightarrow> bool" where
  "WithdrawForm_validate choices form =
     (wf_account form \<in> set choices \<and> DataRequired_int (wf_account form)
      \<and> DataRequired_dec (wf_amount form) \<and> NumberRange float_0_01 100000 (wf_amount form)
      \<and> Optional_Length 255 (wf_description form))"

definition CreateAccountForm_validate :: "create_account_form \<Rightarrow> bool" where
  "CreateAccountForm_validate form =
     (caf_account_type form \<in> set [''Current'', ''savings'']
      \<and> DataRequired_str (caf_account_type form)
      \<and> DataRequired_dec (caf_initial_deposit form)
      \<and> NumberRange 10 100000 (caf_initial_deposit form))"

section \<open>Routes (app/routes/user_routes.py)\<close>

text \<open>
  A route takes the logged-in principal, the request, the clock, the store's answer to
  \<^verbatim>\<open>db.session.commit()\<close> (\<open>False\<close>: the commit raises) and the database, and returns
  what it reports together with the database afterwards. Changes to session objects
  reach the database at the commit; \<^verbatim>\<open>db.session.rollback()\<close> drops them.
\<close>

datatype principal = User int | Admin int

datatype http_method = GET | POST

datatype outcome =
    AdminRedirect
  | NoActiveAccount
  | RenderForm
  | InvalidAccount
  | SourceFrozen
  | DestinationNotFound
  | DestinationFrozen
  | SelfTransferNotAllowed
  | InsufficientFunds
  | Success
  | OperationFailed
  | ErrorOccurred

definition check_account_ownership :: "int \<Rightarrow> database \<Rightarrow> int \<Rightarrow> nat + account" where
  "check_account_ownership current_user_id db account_id =
     (case Account_query_get db account_id of
        None \<Rightarrow> Inl 404
      | Some account \<Rightarrow> if user_id account \<noteq> current_user_id then Inl 403 else Inr account)"

definition active_accounts :: "database \<Rightarrow> int \<Rightarrow> account list" where
  "active_accounts db uid = filter (\<lambda>a. user_id a = uid \<and> \<not> is_frozen a) (accounts db)"

text \<open>\<^verbatim>\<open>datetime.utcnow() + timedelta(hours=5, minutes=30)\<close>, in microseconds.\<close>

definition ist :: "int \<Rightarrow> int" where
  "ist utcnow = utcnow + 19800000000"

definition or_default :: "string \<Rightarrow> string \<Rightarrow> string" where
  "or_default s dflt = (if s = [] then dflt else s)"

subsection \<open>transfer\<close>

definition transfer_submit ::
  "int \<Rightarrow> transfer_form \<Rightarrow> int \<Rightarrow> bool \<Rightarrow> database \<Rightarrow> outcome \<times> database" where
  "transfer_submit uid form utcnow commit_ok db =
     (case Account_query_get db (tf_from_account form) of
        None \<Rightarrow> (ErrorOccurred, db)
      | Some from_account \<Rightarrow>
        if user_id from_account \<noteq> uid then (InvalidAccount, db)
        else if is_frozen from_account then (SourceFrozen, db)
        else (case Account_query_by_number db (tf_to_account_id form) of
          None \<Rightarrow> (DestinationNotFound, db)
        | Some to_account \<Rightarrow>
          if is_frozen to_account then (DestinationFrozen, db)
          else if acc_id from_account = acc_id to_account then (SelfTransferNotAllowed, db)
          else let amount_cents = to_cents (tf_amount form)
               in if balance from_account < amount_cents then (InsufficientFunds, db)
                  else if commit_ok
                  then (Success,
                        db\<lparr>accounts :=
                             set_balance (acc_id to_account) (balance to_account + amount_cents)
                               (set_balance (acc_id from_account)
                                  (balance from_account - amount_cents) (accounts db)),
                           transactions := transactions db @
                             [\<lparr>from_account_id = Some (acc_id from_account),
                               to_account_id = Some (acc_id to_account),
                               amount = amount_cents,
                               transaction_type = ''transfer'',
                               description = Some (or_default (tf_description form)
                                 (''Transfer to '' @ account_number to_account)),
                               timestamp = ist utcnow\<rparr>]\<rparr>)
                  else (OperationFailed, db)))"

definition transfer ::
  "principal \<Rightarrow> http_method \<Rightarrow> transfer_form \<Rightarrow> int \<Rightarrow> bool \<Rightarrow> database
     \<Rightarrow> outcome \<times> database" where
  "transfer current_user meth form utcnow commit_ok db =
     (case current_user of
        Admin _ \<Rightarrow> (AdminRedirect, db)
      | User uid \<Rightarrow>
        let user_accounts = active_accounts db uid
        in if user_accounts = [] then (NoActiveAccount, db)
           else if meth = POST \<and> TransferForm_validate (map acc_id user_accounts) db form
           then transfer_submit uid form utcnow commit_ok db
           else (RenderForm, db))"

subsection \<open>deposit\<close>

definition deposit_submit ::
  "int \<Rightarrow> deposit_form \<Rightarrow> int \<Rightarrow> bool \<Rightarrow> database \<Rightarrow> outcome \<times> database" where
  "deposit_submit uid form utcnow commit_ok db =
     (case Account_query_get db (df_account form) of
        None \<Rightarrow> (OperationFailed, db)
      | Some account \<Rightarrow>
        if user_id account \<noteq> uid then (InvalidAccount, db)
        else let amount_cents = to_cents (df_amount form)
             in if commit_ok
                then (Success,
                      db\<lparr>accounts :=
                           set_balance (acc_id account) (balance account + amount_cents)
                             (accounts db),
                         transactions := transactions db @
                           [\<lparr>from_account_id = None,
                             to_account_id = Some (acc_id account),
                             amount = amount_cents,
                             transaction_type = ''deposit'',
                             description = Some (or_default (df_description form)
                               ''Cash deposit''),
                             timestamp = ist utcnow\<rparr>]\<rparr>)
                else (OperationFailed, db))"

definition deposit ::
  "principal \<Rightarrow> http_method \<Rightarrow> deposit_form \<Rightarrow> int \<Rightarrow> bool \<Rightarrow> database
     \<Rightarrow> outcome \<times> database" where
  "deposit current_user meth form utcnow commit_ok db =
     (case current_user of
        Admin _ \<Rightarrow> (AdminRedirect, db)
      | User uid \<Rightarrow>
        let user_accounts = active_accounts db uid
        in if user_accounts = [] then (NoActiveAccount, db)
           else if meth = POST \<and> DepositForm_validate (map acc_id user_accounts) form
           then deposit_submit uid form utcnow commit_ok db
           else (RenderForm, db))"

subsection \<open>withdraw\<close>

definition withdraw_submit ::
  "int \<Rightarrow> withdraw_form \<Rightarrow> int \<Rightarrow> bool \<Rightarrow> database \<Rightarrow> outcome \<times> database" where
  "withdraw_submit uid form utcnow commit_ok db =
     (case Account_query_get db (wf_account form) of
        None \<Rightarrow> (OperationFailed, db)
      | Some account \<Rightarrow>
        if user_id account \<noteq> uid then (InvalidAccount, db)
        else let amount_cents = to_cents (wf_amount form)
             in if balance account < amount_cents then (InsufficientFunds, db)
                else if commit_ok
                then (Success,
                      db\<lparr>accounts :=
                           set_balance (acc_id account) (balance account - amount_cents)
                             (accounts db),
                         transactions := transactions db @
                           [\<lparr>from_account_id = Some (acc_id account),
                             to_account_id = None,
                             amount = amount_cents,
                             transaction_type = ''withdrawal'',
                             description = Some (or_default (wf_description form)
                               ''Cash withdrawal''),
                             timestamp = ist utcnow\<rparr>]\<rparr>)
                else (OperationFailed, db))"

definition withdraw ::
  "principal \<Rightarrow> http_method \<Rightarrow> withdraw_form \<Rightarrow> int \<Rightarrow> bool \<Rightarrow> database
     \<Rightarrow> outcome \<times> database" where
  "withdraw current_user meth form utcnow commit_ok db =
     (case current_user of
        Admin _ \<Rightarrow> (AdminRedirect, db)
      | User uid \<Rightarrow>
        let user_accounts = active_accounts db uid
        in if user_accounts = [] then (NoActiveAccount, db)
           else if meth = POST \<and> WithdrawForm_validate (map acc_id user_accounts) form
           then withdraw_submit uid form utcnow commit_ok db
           else (RenderForm, db))"

subsection \<open>create_account\<close>

text \<open>
  The new row's primary key is the store's choice (\<open>new_id\<close>); \<^verbatim>\<open>is_frozen\<close> takes its
  column default. The route returns only if \<^const>\<open>generate_account_number\<close> does.
\<close>

definition create_account ::
  "principal \<Rightarrow> http_method \<Rightarrow> create_account_form \<Rightarrow> (nat \<Rightarrow> digit) \<Rightarrow> int \<Rightarrow> bool
     \<Rightarrow> database \<Rightarrow> (outcome \<times> database) option" where
  "create_account current_user meth form rnd new_id commit_ok db =
     (case current_user of
        Admin _ \<Rightarrow> Some (AdminRedirect, db)
      | User uid \<Rightarrow>
        if meth = POST \<and> CreateAccountForm_validate form
        then let initial_balance = to_cents (caf_initial_deposit form)
             in case generate_account_number db rnd of
                  None \<Rightarrow> None
                | Some number \<Rightarrow>
                  if commit_ok
                  then Some (Success,
                         db\<lparr>accounts := accounts db @
                              [\<lparr>acc_id = new_id, user_id = uid, account_number = number,
                                account_type = caf_account_type form,
                                balance = initial_balance, is_frozen = False\<rparr>]\<rparr>)
                  else Some (OperationFailed, db)
        else Some (RenderForm, db))"

section \<open>Requests in sequence\<close>

text \<open>A ledger request with everything its route reads, and the database after it.\<close>

datatype request =
    TransferRequest principal http_method transfer_form int bool
  | DepositRequest principal http_method deposit_form int bool
  | WithdrawRequest principal http_method withdraw_form int bool

fun handle :: "database \<Rightarrow> request \<Rightarrow> database" where
  "handle db (TransferRequest u m f t c) = snd (transfer u m f t c db)"
| "handle db (DepositRequest u m f t c) = snd (deposit u m f t c db)"
| "handle db (WithdrawRequest u m f t c) = snd (withdraw u m f t c db)"

definition handle_all :: "database \<Rightarrow> request list \<Rightarrow> database" where
  "handle_all db rs = foldl handle db rs"

section \<open>Observations on a database\<close>

definition balance_of :: "database \<Rightarrow> int \<Rightarrow> int option" where
  "balance_of db i = map_option balance (Account_query_get db i)"

definition total_balance :: "database \<Rightarrow> int" where
  "total_balance db = sum_list (map balance (accounts db))"

definition balances_nonneg :: "database \<Rightarrow> bool" where
  "balances_nonneg db = list_all (\<lambda>a. 0 \<le> balance a) (accounts db)"

definition is_decimal_digit :: "char \<Rightarrow> bool" where
  "is_decimal_digit c = (c \<in> set ''0123456789'')"

text \<open>The \<open>k\<close>-th candidate number that a run of the generator draws.\<close>

definition nth_candidate :: "(nat \<Rightarrow> digit) \<Rightarrow> nat \<Rightarrow> string" where
  "nth_candidate rnd k = candidate ((later_draws ^^ k) rnd)"

text \<open>The shape of a transaction record, by the operation that writes it.\<close>

definition deposit_shaped :: "transaction \<Rightarrow> bool" where
  "deposit_shaped t = (0 < amount t \<and> transaction_type t = ''deposit''
     \<and> from_account_id t = None \<and> to_account_id t \<noteq> None)"

definition withdrawal_shaped :: "transaction \<Rightarrow> bool" where
  "withdrawal_shaped t = (0 < amount t \<and> transaction_type t = ''withdrawal''
     \<and> from_account_id t \<noteq> None \<and> to_account_id t = None)"

definition transfer_shaped :: "transaction \<Rightarrow> bool" where
  "transfer_shaped t = (0 < amount t \<and> transaction_type t = ''transfer''
     \<and> from_account_id t \<noteq> None \<and> to_account_id t \<noteq> None)"

section \<open>Ordered preconditions\<close>

text \<open>
  A sequence of checks, each with the error it reports; the first check that fails
  decides.
\<close>

fun first_failing :: "(bool \<times> outcome) list \<Rightarrow> outcome option" where
  "first_failing [] = None"
| "first_failing ((holds, err) # rest) = (if holds then first_failing rest else Some err)"

text \<open>
  The five preconditions of Transfer in the words of the specification (section 4.1),
  for a source account, the destination the account number resolves to, and the amount
  in cents.
\<close>

definition spec_transfer_preconditions ::
  "account \<Rightarrow> account option \<Rightarrow> int \<Rightarrow> (bool \<times> outcome) list" where
  "spec_transfer_preconditions source destination amt =
     [(\<not> is_frozen source, SourceFrozen),
      (destination \<noteq> None, DestinationNotFound),
      (case destination of None \<Rightarrow> False | Some d \<Rightarrow> \<not> is_frozen d, DestinationFrozen),
      (case destination of None \<Rightarrow> False | Some d \<Rightarrow> acc_id source \<noteq> acc_id d,
         SelfTransferNotAllowed),
      (0 < amt \<and> amt \<le> balance source, InsufficientFunds)]"

text \<open>The checks the transfer route makes, in the order it makes them.\<close>

definition route_transfer_preconditions ::
  "principal \<Rightarrow> http_method \<Rightarrow> transfer_form \<Rightarrow> database \<Rightarrow> (bool \<times> outcome) list" where
  "route_transfer_preconditions current_user meth form db =
     (let uid = (case current_user of User i \<Rightarrow> i | Admin i \<Rightarrow> i);
          source = Account_query_get db (tf_from_account form);
          destination = Account_query_by_number db (tf_to_account_id form)
      in [(case current_user of User _ \<Rightarrow> True | Admin _ \<Rightarrow> False, AdminRedirect),
          (active_accounts db uid \<noteq> [], NoActiveAccount),
          (meth = POST \<and> TransferForm_validate (map acc_id (active_accounts db uid)) db form,
             RenderForm),
          (source \<noteq> None, ErrorOccurred),
          (case source of None \<Rightarrow> False | Some s \<Rightarrow> user_id s = uid, InvalidAccount),
          (case source of None \<Rightarrow> False | Some s \<Rightarrow> \<not> is_frozen s, SourceFrozen),
          (destination \<noteq> None, DestinationNotFound),
          (case destination of None \<Rightarrow> False | Some d \<Rightarrow> \<not> is_frozen d, DestinationFrozen),
          (case (source, destination) of (Some s, Some d) \<Rightarrow> acc_id s \<noteq> acc_id d | _ \<Rightarrow> False,
             SelfTransferNotAllowed),
          (case source of None \<Rightarrow> False
           | Some s \<Rightarrow> to_cents (tf_amount form) \<le> balance s, InsufficientFunds)])"

section \<open>Example data\<close>

text \<open>The two accounts of \<^verbatim>\<open>test_create_transfer_and_balance_update\<close> in tests/test_app.py.\<close>

definition sender_account :: account where
  "sender_account = \<lparr>acc_id = 1, user_id = 1, account_number = ''1000000001'',
     account_type = ''checking'', balance = 5000, is_frozen = False\<rparr>"

definition receiver_account :: account where
  "receiver_account = \<lparr>acc_id = 2, user_id = 2, account_number = ''2000000002'',
     account_type = ''savings'', balance = 1000, is_frozen = False\<rparr>"

definition test_db :: database where
  "test_db = \<lparr>accounts = [sender_account, receiver_account], transactions = []\<rparr>"

definition test_transfer_form :: transfer_form where
  "test_transfer_form = \<lparr>tf_from_account = 1, tf_to_account_id = ''2000000002'',
     tf_amount = Decimal 2000 (- 2), tf_description = ''Test Transfer''\<rparr>"

text \<open>The database the test expects after its transfer of 20.00.\<close>

definition test_db_after :: database where
  "test_db_after =
     \<lparr>accounts = [sender_account\<lparr>balance := 3000\<rparr>, receiver_account\<lparr>balance := 3000\<rparr>],
      transactions = [\<lparr>from_account_id = Some 1, to_account_id = Some 2, amount = 2000,
         transaction_type = ''transfer'', description = Some ''Test Transfer'',
         timestamp = 19800000000\<rparr>]\<rparr>"

text \<open>A user whose only account is frozen.\<close>

definition frozen_db :: database where
  "frozen_db = \<lparr>accounts = [sender_account\<lparr>is_frozen := True\<rparr>], transactions = []\<rparr>"

text \<open>A transfer, a later deposit and a withdrawal in between, in the order of their insertion.\<close>

definition history_db :: database where
  "history_db =
     \<lparr>accounts = [sender_account, receiver_account],
      transactions =
        [\<lparr>from_account_id = Some 1, to_account_id = Some 2, amount = 2000,
           transaction_type = ''transfer'', description = None, timestamp = 10\<rparr>,
         \<lparr>from_account_id = None, to_account_id = Some 1, amount = 700,
           transaction_type = ''deposit'', description = None, timestamp = 30\<rparr>,
         \<lparr>from_account_id = Some 2, to_account_id = None, amount = 300,
           transaction_type = ''withdrawal'', description = None, timestamp = 20\<rparr>]\<rparr>"

text \<open>
  Random draws whose first ten digits spell the sender's account number and whose later
  digits are all seven.
\<close>

definition example_draws :: "nat \<Rightarrow> digit" where
  "example_draws i = (if i = 0 \<or> i = 9 then D1 else if i < 10 then D0 else D7)"

section \<open>Amounts in cents\<close>

text \<open>
  An amount that passes the lower bound of a \<^verbatim>\<open>NumberRange\<close> of the ledger forms is at
  least one cent after the conversion, whatever its number of digits.
\<close>

lemma ndigits_pos: "0 < ndigits n"
  by (subst ndigits.simps) simp

lemma ndigits_upper: "n < 10 ^ ndigits n"
proof (induction n rule: ndigits.induct)
  case (1 n)
  show ?case
  proof (cases "n < 10")
    case True
    then show ?thesis by (subst ndigits.simps) simp
  next
    case False
    with 1 have "n div 10 < 10 ^ ndigits (n div 10)" by simp
    then have "n < 10 * 10 ^ ndigits (n div 10)" by linarith
    with False show ?thesis by (subst ndigits.simps) simp
  qed
qed

lemma ndigits_lower: "1 \<le> n \<Longrightarrow> 10 ^ (ndigits n - 1) \<le> n"
proof (induction n rule: ndigits.induct)
  case (1 n)
  show ?case
  proof (cases "n < 10")
    case True
    with 1(2) show ?thesis by (subst ndigits.simps) simp
  next
    case False
    then have "1 \<le> n div 10" by linarith
    with 1 False have "10 ^ (ndigits (n div 10) - 1) \<le> n div 10" by simp
    then have "10 * 10 ^ (ndigits (n div 10) - 1) \<le> n" by linarith
    moreover have "10 * (10::int) ^ (ndigits (n div 10) - 1) = 10 ^ ndigits (n div 10)"
      using ndigits_pos [of "n div 10"] by (cases "ndigits (n div 10)") simp_all
    ultimately show ?thesis using False by (subst ndigits.simps) simp
  qed
qed

lemma round_half_even_ge: "round_half_even n k \<ge> n div 10 ^ k"
  by (simp add: round_half_even_def Let_def)

lemma round_half_even_le: "round_half_even n k \<le> n div 10 ^ k + 1"
  by (simp add: round_half_even_def Let_def)

lemma py_int_pos:
  assumes "0 < c" and "e < 0 \<Longrightarrow> 10 ^ nat (- e) \<le> c"
  shows "1 \<le> py_int (Decimal c e)"
proof (cases "0 \<le> e")
  case True
  have "1 \<le> c" using assms(1) by simp
  moreover have "(1::int) \<le> 10 ^ nat e" by simp
  ultimately have "1 * 1 \<le> c * 10 ^ nat e" using assms(1) by (intro mult_mono) simp_all
  with True show ?thesis by (simp add: py_int_def)
next
  case False
  then have "10 ^ nat (- e) \<le> c" using assms(2) by simp
  then have "(10::int) ^ nat (- e) div 10 ^ nat (- e) \<le> c div 10 ^ nat (- e)"
    by (intro zdiv_mono1) simp_all
  then have "1 \<le> c div 10 ^ nat (- e)" by simp
  with False assms(1) show ?thesis by (simp add: py_int_def)
qed

lemma dec_fix_cases:
  assumes "0 < c"
  shows "dec_fix (Decimal c e) = Decimal c e \<and> ndigits c \<le> 28
       \<or> (\<exists>c' e'. dec_fix (Decimal c e) = Decimal c' e' \<and> 10 ^ 27 \<le> c'
             \<and> e + int (ndigits c) - 28 \<le> e')"
proof (cases "ndigits c \<le> 28")
  case True
  with assms show ?thesis by (simp add: dec_fix_def context_prec_def)
next
  case False
  define k where "k = ndigits c - 28"
  define m where "m = round_half_even c k"
  have n: "ndigits c = k + 28" using False by (simp add: k_def)
  have "10 ^ (ndigits c - 1) \<le> c" using assms by (intro ndigits_lower) simp
  then have "(10::int) ^ (27 + k) \<le> c" by (simp add: n add.commute)
  then have "(10::int) ^ 27 * 10 ^ k \<le> c" by (simp add: power_add)
  then have "((10::int) ^ 27 * 10 ^ k) div 10 ^ k \<le> c div 10 ^ k"
    by (intro zdiv_mono1) simp_all
  then have q: "(10::int) ^ 27 \<le> c div 10 ^ k" by simp
  have "c < 10 ^ (28 + k)" using ndigits_upper [of c] by (simp add: n add.commute)
  then have "c < 10 ^ 28 * 10 ^ k" by (simp only: power_add)
  have q': "c div 10 ^ k < 10 ^ 28"
  proof (rule ccontr)
    assume "\<not> c div 10 ^ k < 10 ^ 28"
    then have "10 ^ 28 * 10 ^ k \<le> c div 10 ^ k * 10 ^ k"
      by (intro mult_right_mono) simp_all
    moreover have "c div 10 ^ k * 10 ^ k \<le> c"
    proof -
      have "(0::int) \<le> c mod 10 ^ k" by simp
      then show ?thesis using div_mult_mod_eq [of c "10 ^ k"] by linarith
    qed
    ultimately show False using \<open>c < 10 ^ 28 * 10 ^ k\<close> by linarith
  qed
  have m_ge: "c div 10 ^ k \<le> m" unfolding m_def by (rule round_half_even_ge)
  have m_le: "m \<le> c div 10 ^ k + 1" unfolding m_def by (rule round_half_even_le)
  have c_abs: "\<bar>c\<bar> = c" "sgn c = 1" using assms by simp_all
  show ?thesis
  proof (cases "ndigits m > 28")
    case True
    have "m \<le> 10 ^ 28" using m_le q' by linarith
    moreover have "10 ^ 28 \<le> m"
    proof -
      have "(1::int) \<le> 10 ^ 27" by simp
      then have "1 \<le> m" using m_ge q by linarith
      then have "10 ^ (ndigits m - 1) \<le> m" by (rule ndigits_lower)
      moreover have "(10::int) ^ 28 \<le> 10 ^ (ndigits m - 1)"
        using True by (intro power_increasing) simp_all
      ultimately show ?thesis by linarith
    qed
    ultimately have "m = 10 ^ 28" by simp
    then have "m div 10 = 10 ^ 27" by simp
    with True False show ?thesis
      by (simp add: dec_fix_def context_prec_def Let_def c_abs n flip: k_def m_def)
  next
    case m28: False
    have "10 ^ 27 \<le> m" using m_ge q by linarith
    with m28 False show ?thesis
      by (simp add: dec_fix_def context_prec_def Let_def c_abs n flip: k_def m_def)
  qed
qed

lemma float_0_01_ge: "1 / 100 \<le> float_0_01"
  by (simp add: float_0_01_def)

lemma dec_value_ge_coeff:
  assumes "1 / 100 \<le> dec_value (Decimal c e)"
  shows "0 < c" and "e < 0 \<Longrightarrow> 10 ^ nat (- e) \<le> c * 100"
proof -
  show "0 < c"
  proof (rule ccontr)
    assume "\<not> 0 < c"
    then have "c \<le> 0" by simp
    then have "dec_value (Decimal c e) \<le> 0"
      by (simp add: dec_value_def mult_le_0_iff divide_le_0_iff)
    with assms show False by simp
  qed
next
  assume e: "e < 0"
  have "(1::rat) / 100 \<le> of_int c / of_int (10 ^ nat (- e))"
    using assms e by (simp add: dec_value_def)
  then have "(of_int (10 ^ nat (- e)) :: rat) \<le> of_int (c * 100)"
    by (simp add: pos_le_divide_eq)
  then show "10 ^ nat (- e) \<le> c * 100" by (simp only: of_int_le_iff)
qed

lemma to_cents_positive:
  assumes "float_0_01 \<le> dec_value d"
  shows "1 \<le> to_cents d"
proof -
  obtain c e where d: "d = Decimal c e" by (cases d)
  have v: "1 / 100 \<le> dec_value (Decimal c e)" using assms float_0_01_ge d by simp
  have c: "0 < c * 100" using dec_value_ge_coeff(1) [OF v] by simp
  have big: "e < 0 \<Longrightarrow> 10 ^ nat (- e) \<le> c * 100" by (rule dec_value_ge_coeff(2) [OF v])
  from dec_fix_cases [OF c, of e] show ?thesis
  proof (elim disjE conjE exE)
    assume "dec_fix (Decimal (c * 100) e) = Decimal (c * 100) e"
    then show ?thesis using py_int_pos [OF c, of e] big
      by (simp add: to_cents_def dec_mul_int_def d)
  next
    fix c' e'
    assume f: "dec_fix (Decimal (c * 100) e) = Decimal c' e'"
      and c': "10 ^ 27 \<le> c'" and e': "e + int (ndigits (c * 100)) - 28 \<le> e'"
    have "(0::int) < 10 ^ 27" by simp
    then have pos: "0 < c'" using c' by linarith
    have "10 ^ nat (- e') \<le> c'" if neg: "e' < 0"
    proof -
      have "- e < int (ndigits (c * 100))"
      proof (cases "e < 0")
        case True
        have "(10::int) ^ nat (- e) < 10 ^ ndigits (c * 100)"
          using big [OF True] ndigits_upper [of "c * 100"] by linarith
        then have "nat (- e) < ndigits (c * 100)" by (simp add: power_strict_increasing_iff)
        then show ?thesis by linarith
      next
        case False
        then show ?thesis using ndigits_pos [of "c * 100"] by linarith
      qed
      then have "nat (- e') \<le> 27" using e' by linarith
      then have "(10::int) ^ nat (- e') \<le> 10 ^ 27" by (intro power_increasing) simp_all
      with c' show ?thesis by linarith
    qed
    then show ?thesis using py_int_pos [OF pos, of e'] f
      by (simp add: to_cents_def dec_mul_int_def d)
  qed
qed

section \<open>The transfer route\<close>

lemma transfer_submit_failure:
  "transfer_submit uid form utcnow commit_ok db = (out, db') \<Longrightarrow> out \<noteq> Success \<Longrightarrow> db' = db"
  by (auto simp: transfer_submit_def Let_def split: option.splits if_splits)

lemma transfer_submit_success:
  assumes "transfer_submit uid form utcnow commit_ok db = (Success, db')"
  shows "\<exists>src dst.
          Account_query_get db (tf_from_account form) = Some src
        \<and> Account_query_by_number db (tf_to_account_id form) = Some dst
        \<and> user_id src = uid \<and> \<not> is_frozen src \<and> \<not> is_frozen dst
        \<and> acc_id src \<noteq> acc_id dst
        \<and> to_cents (tf_amount form) \<le> balance src \<and> commit_ok
        \<and> db' = db\<lparr>accounts :=
              set_balance (acc_id dst) (balance dst + to_cents (tf_amount form))
                (set_balance (acc_id src) (balance src - to_cents (tf_amount form)) (accounts db)),
            transactions := transactions db @
              [\<lparr>from_account_id = Some (acc_id src), to_account_id = Some (acc_id dst),
                amount = to_cents (tf_amount form), transaction_type = ''transfer'',
                description = Some (or_default (tf_description form)
                  (''Transfer to '' @ account_number dst)),
                timestamp = ist utcnow\<rparr>]\<rparr>"
  using assms
  by (auto simp: transfer_submit_def Let_def split: option.splits if_splits)

lemma transfer_route_cases:
  "transfer current_user meth form utcnow commit_ok db = (out, db') \<Longrightarrow>
     (out \<in> {AdminRedirect, NoActiveAccount, RenderForm} \<and> db' = db)
   \<or> (\<exists>uid. current_user = User uid \<and> meth = POST
         \<and> TransferForm_validate (map acc_id (active_accounts db uid)) db form
         \<and> transfer_submit uid form utcnow commit_ok db = (out, db'))"
  by (auto simp: transfer_def Let_def split: principal.splits if_splits)

subsection \<open>The scenario of tests/test_app.py, evaluated\<close>

lemmas eval_defs = transfer_def transfer_submit_def deposit_def deposit_submit_def
  withdraw_def withdraw_submit_def active_accounts_def
  TransferForm_validate_def DepositForm_validate_def WithdrawForm_validate_def
  validate_to_account_id_def DataRequired_int_def DataRequired_str_def DataRequired_dec_def
  Length_ok_def NumberRange_def Optional_Length_def blank_def str_isdigit_def
  py_isspace_def py_isdigit_def float_0_01_def dec_value_def
  to_cents_def dec_mul_int_def dec_fix_def py_int_def context_prec_def ndigits.simps
  Account_query_get_def Account_query_by_number_def set_balance_def or_default_def ist_def
  Let_def

lemma test_transfer_cents: "to_cents (tf_amount test_transfer_form) = 2000"
  by (simp add: test_transfer_form_def eval_defs)

lemma test_transfer_success:
  "transfer (User 1) POST test_transfer_form 0 True test_db = (Success, test_db_after)"
  by (simp add: test_db_def test_db_after_def test_transfer_form_def sender_account_def
      receiver_account_def eval_defs)

lemma test_transfer_commit_fails:
  "transfer (User 1) POST test_transfer_form 0 False test_db = (OperationFailed, test_db)"
  by (simp add: test_db_def test_transfer_form_def sender_account_def receiver_account_def
      eval_defs)

subsection \<open>Atomicity\<close>

text \<open>
  Claim C1. A transfer is all or nothing. Whatever the route reports other than success
  (a failed precondition, or a commit that raises and is rolled back), it leaves the
  whole database as it was: no balance differs and no transaction row is added. When it
  reports success, the source row is debited, the destination row is credited and
  exactly one transaction row is appended, all in the database it returns.
\<close>

theorem transfer_all_or_nothing:
  assumes "transfer current_user meth form utcnow commit_ok db = (out, db')"
  shows "(out \<noteq> Success \<longrightarrow> db' = db)
       \<and> (out = Success \<longrightarrow>
            (\<exists>src dst.
               Account_query_get db (tf_from_account form) = Some src
             \<and> Account_query_by_number db (tf_to_account_id form) = Some dst
             \<and> accounts db' =
                 set_balance (acc_id dst) (balance dst + to_cents (tf_amount form))
                   (set_balance (acc_id src) (balance src - to_cents (tf_amount form))
                      (accounts db))
             \<and> transactions db' = transactions db @
                 [\<lparr>from_account_id = Some (acc_id src), to_account_id = Some (acc_id dst),
                   amount = to_cents (tf_amount form), transaction_type = ''transfer'',
                   description = Some (or_default (tf_description form)
                     (''Transfer to '' @ account_number dst)),
                   timestamp = ist utcnow\<rparr>]))"
proof (intro conjI impI)
  assume "out \<noteq> Success"
  with transfer_route_cases [OF assms] show "db' = db"
    by (auto dest: transfer_submit_failure)
next
  assume "out = Success"
  with transfer_route_cases [OF assms] obtain uid
    where "transfer_submit uid form utcnow commit_ok db = (Success, db')" by auto
  from transfer_submit_success [OF this] show "\<exists>src dst.
               Account_query_get db (tf_from_account form) = Some src
             \<and> Account_query_by_number db (tf_to_account_id form) = Some dst
             \<and> accounts db' =
                 set_balance (acc_id dst) (balance dst + to_cents (tf_amount form))
                   (set_balance (acc_id src) (balance src - to_cents (tf_amount form))
                      (accounts db))
             \<and> transactions db' = transactions db @
                 [\<lparr>from_account_id = Some (acc_id src), to_account_id = Some (acc_id dst),
                   amount = to_cents (tf_amount form), transaction_type = ''transfer'',
                   description = Some (or_default (tf_description form)
                     (''Transfer to '' @ account_number dst)),
                   timestamp = ist utcnow\<rparr>]"
    by auto
qed

theorem transfer_all_or_nothing_witness:
  "transfer (User 1) POST test_transfer_form 0 False test_db = (OperationFailed, test_db)
   \<and> transfer (User 1) POST test_transfer_form 0 True test_db = (Success, test_db_after)
   \<and> accounts test_db_after = set_balance 2 3000 (set_balance 1 3000 (accounts test_db))
   \<and> length (transactions test_db_after) = length (transactions test_db) + 1"
proof -
  note failed = transfer_all_or_nothing [OF test_transfer_commit_fails]
  note succeeded = transfer_all_or_nothing [OF test_transfer_success]
  have src: "Account_query_get test_db (tf_from_account test_transfer_form) = Some sender_account"
    by (simp add: test_db_def test_transfer_form_def sender_account_def Account_query_get_def)
  have dst: "Account_query_by_number test_db (tf_to_account_id test_transfer_form)
      = Some receiver_account"
    by (simp add: test_db_def test_transfer_form_def sender_account_def receiver_account_def
        Account_query_by_number_def)
  have bal: "balance sender_account = 5000" "balance receiver_account = 1000"
    "acc_id sender_account = 1" "acc_id receiver_account = 2"
    by (simp_all add: sender_account_def receiver_account_def)
  from succeeded src dst
  have "accounts test_db_after = set_balance 2 3000 (set_balance 1 3000 (accounts test_db))"
    and "length (transactions test_db_after) = length (transactions test_db) + 1"
    by (simp_all add: test_transfer_cents bal)
  with failed show ?thesis
    by (simp add: test_transfer_commit_fails test_transfer_success)
qed

subsection \<open>Conservation\<close>

lemma find_set_balance:
  "find (\<lambda>a. acc_id a = j) (set_balance i b rows) =
     (if i = j then map_option (\<lambda>a. a\<lparr>balance := b\<rparr>) (find (\<lambda>a. acc_id a = j) rows)
      else find (\<lambda>a. acc_id a = j) rows)"
  by (induction rows) (auto simp: set_balance_def)

lemma find_Some_mem: "find P rows = Some y \<Longrightarrow> y \<in> set rows \<and> P y"
  by (induction rows) (auto split: if_splits)

lemma find_distinct_key:
  "distinct (map acc_id rows) \<Longrightarrow> y \<in> set rows \<Longrightarrow> find (\<lambda>a. acc_id a = acc_id y) rows = Some y"
  by (induction rows) (auto simp: image_iff)

lemma set_balance_absent:
  "i \<notin> acc_id ` set rows \<Longrightarrow> set_balance i b rows = rows"
  by (induction rows) (auto simp: set_balance_def)

lemma sum_set_balance:
  "distinct (map acc_id rows) \<Longrightarrow> x \<in> set rows \<Longrightarrow>
     sum_list (map balance (set_balance (acc_id x) b rows))
       = sum_list (map balance rows) - balance x + b"
proof (induction rows)
  case Nil
  then show ?case by simp
next
  case (Cons r rows)
  show ?case
  proof (cases "r = x")
    case True
    with Cons.prems have "acc_id x \<notin> acc_id ` set rows" by auto
    then have "set_balance (acc_id x) b rows = rows" by (rule set_balance_absent)
    then have "set_balance (acc_id x) b (r # rows) = x\<lparr>balance := b\<rparr> # rows"
      using True by (simp add: set_balance_def)
    then show ?thesis using True by simp
  next
    case False
    with Cons.prems have x: "x \<in> set rows" and d: "distinct (map acc_id rows)"
      and ne: "acc_id r \<noteq> acc_id x" by (auto simp: image_iff)
    have "set_balance (acc_id x) b (r # rows) = r # set_balance (acc_id x) b rows"
      using ne by (simp add: set_balance_def)
    then show ?thesis using Cons.IH [OF d x] by simp
  qed
qed

lemma map_acc_id_set_balance: "map acc_id (set_balance i b rows) = map acc_id rows"
  by (induction rows) (auto simp: set_balance_def)

text \<open>
  Claim C2. For a successful transfer of amount \<open>A\<close> (in cents) from account \<open>X\<close> to
  account \<open>Y\<close>: the balance of \<open>X\<close> afterwards is the one before minus \<open>A\<close>, the balance
  of \<open>Y\<close> afterwards is the one before plus \<open>A\<close>, the sum of the two is the same before
  and after (as is the sum over all accounts), and exactly one transaction row of type
  transfer, from \<open>X\<close> to \<open>Y\<close> with amount \<open>A\<close>, is appended. Balances are read by
  primary key, so the key is assumed to identify a row.
\<close>

theorem transfer_conservation:
  assumes pk: "primary_key_ok db"
    and ok: "transfer current_user meth form utcnow commit_ok db = (Success, db')"
  shows "\<exists>x y x_before x_after y_before y_after.
           Account_query_get db (tf_from_account form) = Some x
         \<and> Account_query_by_number db (tf_to_account_id form) = Some y
         \<and> balance_of db (acc_id x) = Some x_before
         \<and> balance_of db (acc_id y) = Some y_before
         \<and> balance_of db' (acc_id x) = Some x_after
         \<and> balance_of db' (acc_id y) = Some y_after
         \<and> x_after + y_after = x_before + y_before
         \<and> x_after = x_before - to_cents (tf_amount form)
         \<and> y_after = y_before + to_cents (tf_amount form)
         \<and> total_balance db' = total_balance db
         \<and> transactions db' = transactions db @
               [\<lparr>from_account_id = Some (acc_id x), to_account_id = Some (acc_id y),
                 amount = to_cents (tf_amount form), transaction_type = ''transfer'',
                 description = Some (or_default (tf_description form)
                   (''Transfer to '' @ account_number y)),
                 timestamp = ist utcnow\<rparr>]"
proof -
  define A where "A = to_cents (tf_amount form)"
  from transfer_route_cases [OF ok] obtain uid
    where "transfer_submit uid form utcnow commit_ok db = (Success, db')" by auto
  from transfer_submit_success [OF this] obtain x y
    where x: "Account_query_get db (tf_from_account form) = Some x"
      and y: "Account_query_by_number db (tf_to_account_id form) = Some y"
      and ne: "acc_id x \<noteq> acc_id y"
      and db': "db' = db\<lparr>accounts :=
              set_balance (acc_id y) (balance y + A)
                (set_balance (acc_id x) (balance x - A) (accounts db)),
            transactions := transactions db @
              [\<lparr>from_account_id = Some (acc_id x), to_account_id = Some (acc_id y),
                amount = A, transaction_type = ''transfer'',
                description = Some (or_default (tf_description form)
                  (''Transfer to '' @ account_number y)),
                timestamp = ist utcnow\<rparr>]\<rparr>"
    unfolding A_def by blast
  have d: "distinct (map acc_id (accounts db))" using pk by (simp add: primary_key_ok_def)
  have xin: "x \<in> set (accounts db)" using x find_Some_mem unfolding Account_query_get_def by fast
  have yin: "y \<in> set (accounts db)" using y find_Some_mem unfolding Account_query_by_number_def by fast
  have gx: "Account_query_get db (acc_id x) = Some x"
    unfolding Account_query_get_def using d xin by (rule find_distinct_key)
  have gy: "Account_query_get db (acc_id y) = Some y"
    unfolding Account_query_get_def using d yin by (rule find_distinct_key)
  have bx: "balance_of db (acc_id x) = Some (balance x)" by (simp add: balance_of_def gx)
  have cy: "balance_of db (acc_id y) = Some (balance y)" by (simp add: balance_of_def gy)
  have bx': "balance_of db' (acc_id x) = Some (balance x - A)"
    using gx ne by (simp add: balance_of_def Account_query_get_def db' find_set_balance)
  have cy': "balance_of db' (acc_id y) = Some (balance y + A)"
    using gy ne by (simp add: balance_of_def Account_query_get_def db' find_set_balance)
  let ?mid = "set_balance (acc_id x) (balance x - A) (accounts db)"
  have mid_sum: "sum_list (map balance ?mid) = total_balance db - A"
    using sum_set_balance [OF d xin, of "balance x - A"] by (simp add: total_balance_def)
  have mid_d: "distinct (map acc_id ?mid)" using d by (simp add: map_acc_id_set_balance)
  have "find (\<lambda>a. acc_id a = acc_id y) ?mid = Some y"
    using gy ne by (simp add: find_set_balance Account_query_get_def)
  then have mid_y: "y \<in> set ?mid" using find_Some_mem by fast
  have total: "total_balance db' = total_balance db"
    using sum_set_balance [OF mid_d mid_y, of "balance y + A"] mid_sum
    by (simp add: total_balance_def db')
  have tx: "transactions db' = transactions db @
               [\<lparr>from_account_id = Some (acc_id x), to_account_id = Some (acc_id y),
                 amount = A, transaction_type = ''transfer'',
                 description = Some (or_default (tf_description form)
                   (''Transfer to '' @ account_number y)),
                 timestamp = ist utcnow\<rparr>]"
    by (simp add: db')
  show ?thesis
    by (rule exI [of _ x], rule exI [of _ y], rule exI [of _ "balance x"],
        rule exI [of _ "balance x - A"], rule exI [of _ "balance y"],
        rule exI [of _ "balance y + A"])
       (use x y bx cy bx' cy' total tx in \<open>simp add: A_def\<close>)
qed

theorem transfer_conservation_witness:
  "primary_key_ok test_db
   \<and> transfer (User 1) POST test_transfer_form 0 True test_db = (Success, test_db_after)
   \<and> balance_of test_db 1 = Some 5000 \<and> balance_of test_db 2 = Some 1000
   \<and> balance_of test_db_after 1 = Some 3000 \<and> balance_of test_db_after 2 = Some 3000
   \<and> total_balance test_db_after = total_balance test_db"
proof -
  have pk: "primary_key_ok test_db"
    by (simp add: primary_key_ok_def test_db_def sender_account_def receiver_account_def)
  from transfer_conservation [OF pk test_transfer_success]
  have "total_balance test_db_after = total_balance test_db"
    by auto
  then show ?thesis
    using pk test_transfer_success
    by (simp add: balance_of_def Account_query_get_def test_db_def test_db_after_def
        sender_account_def receiver_account_def)
qed

section \<open>The deposit and withdraw routes, case by case\<close>

lemma deposit_route_cases:
  "deposit current_user meth form utcnow commit_ok db = (out, db') \<Longrightarrow>
     (out \<in> {AdminRedirect, NoActiveAccount, RenderForm} \<and> db' = db)
   \<or> (\<exists>uid. current_user = User uid \<and> meth = POST
         \<and> DepositForm_validate (map acc_id (active_accounts db uid)) form
         \<and> deposit_submit uid form utcnow commit_ok db = (out, db'))"
  by (auto simp: deposit_def Let_def split: principal.splits if_splits)

lemma withdraw_route_cases:
  "withdraw current_user meth form utcnow commit_ok db = (out, db') \<Longrightarrow>
     (out \<in> {AdminRedirect, NoActiveAccount, RenderForm} \<and> db' = db)
   \<or> (\<exists>uid. current_user = User uid \<and> meth = POST
         \<and> WithdrawForm_validate (map acc_id (active_accounts db uid)) form
         \<and> withdraw_submit uid form utcnow commit_ok db = (out, db'))"
  by (auto simp: withdraw_def Let_def split: principal.splits if_splits)

lemma deposit_submit_failure:
  "deposit_submit uid form utcnow commit_ok db = (out, db') \<Longrightarrow> out \<noteq> Success \<Longrightarrow> db' = db"
  by (auto simp: deposit_submit_def Let_def split: option.splits if_splits)

lemma withdraw_submit_failure:
  "withdraw_submit uid form utcnow commit_ok db = (out, db') \<Longrightarrow> out \<noteq> Success \<Longrightarrow> db' = db"
  by (auto simp: withdraw_submit_def Let_def split: option.splits if_splits)

lemma deposit_submit_success:
  assumes "deposit_submit uid form utcnow commit_ok db = (Success, db')"
  shows "\<exists>a. Account_query_get db (df_account form) = Some a \<and> user_id a = uid \<and> commit_ok
        \<and> db' = db\<lparr>accounts :=
              set_balance (acc_id a) (balance a + to_cents (df_amount form)) (accounts db),
            transactions := transactions db @
              [\<lparr>from_account_id = None, to_account_id = Some (acc_id a),
                amount = to_cents (df_amount form), transaction_type = ''deposit'',
                description = Some (or_default (df_description form) ''Cash deposit''),
                timestamp = ist utcnow\<rparr>]\<rparr>"
  using assms
  by (auto simp: deposit_submit_def Let_def split: option.splits if_splits)

lemma withdraw_submit_success:
  assumes "withdraw_submit uid form utcnow commit_ok db = (Success, db')"
  shows "\<exists>a. Account_query_get db (wf_account form) = Some a \<and> user_id a = uid \<and> commit_ok
        \<and> to_cents (wf_amount form) \<le> balance a
        \<and> db' = db\<lparr>accounts :=
              set_balance (acc_id a) (balance a - to_cents (wf_amount form)) (accounts db),
            transactions := transactions db @
              [\<lparr>from_account_id = Some (acc_id a), to_account_id = None,
                amount = to_cents (wf_amount form), transaction_type = ''withdrawal'',
                description = Some (or_default (wf_description form) ''Cash withdrawal''),
                timestamp = ist utcnow\<rparr>]\<rparr>"
  using assms
  by (auto simp: withdraw_submit_def Let_def split: option.splits if_splits)

lemma transfer_validated_positive:
  "TransferForm_validate choices db form \<Longrightarrow> 1 \<le> to_cents (tf_amount form)"
  by (simp add: TransferForm_validate_def NumberRange_def to_cents_positive)

lemma deposit_validated_positive:
  "DepositForm_validate choices form \<Longrightarrow> 1 \<le> to_cents (df_amount form)"
  by (simp add: DepositForm_validate_def NumberRange_def to_cents_positive)

lemma withdraw_validated_positive:
  "WithdrawForm_validate choices form \<Longrightarrow> 1 \<le> to_cents (wf_amount form)"
  by (simp add: WithdrawForm_validate_def NumberRange_def to_cents_positive)

lemma nonneg_set_balance:
  "list_all (\<lambda>a. 0 \<le> balance a) rows \<Longrightarrow> 0 \<le> b \<Longrightarrow>
     list_all (\<lambda>a. 0 \<le> balance a) (set_balance i b rows)"
  by (induction rows) (auto simp: set_balance_def)

lemma nonneg_member:
  "balances_nonneg db \<Longrightarrow> a \<in> set (accounts db) \<Longrightarrow> 0 \<le> balance a"
  by (simp add: balances_nonneg_def list_all_iff)

lemma transfer_nonneg:
  assumes inv: "balances_nonneg db"
  shows "balances_nonneg (snd (transfer u m f t c db))"
proof -
  obtain out db' where r: "transfer u m f t c db = (out, db')" by (cases "transfer u m f t c db")
  show ?thesis
  proof (cases "out = Success")
    case False
    with transfer_route_cases [OF r] have "db' = db" by (auto dest: transfer_submit_failure)
    with inv r show ?thesis by simp
  next
    case True
    with transfer_route_cases [OF r] obtain uid
      where v: "TransferForm_validate (map acc_id (active_accounts db uid)) db f"
        and s: "transfer_submit uid f t c db = (Success, db')" by auto
    from transfer_submit_success [OF s] obtain src dst
      where src: "Account_query_get db (tf_from_account f) = Some src"
        and dst: "Account_query_by_number db (tf_to_account_id f) = Some dst"
        and le: "to_cents (tf_amount f) \<le> balance src"
        and eq: "db' = db\<lparr>accounts :=
              set_balance (acc_id dst) (balance dst + to_cents (tf_amount f))
                (set_balance (acc_id src) (balance src - to_cents (tf_amount f)) (accounts db)),
            transactions := transactions db @
              [\<lparr>from_account_id = Some (acc_id src), to_account_id = Some (acc_id dst),
                amount = to_cents (tf_amount f), transaction_type = ''transfer'',
                description = Some (or_default (tf_description f)
                  (''Transfer to '' @ account_number dst)),
                timestamp = ist t\<rparr>]\<rparr>"
      by blast
    have db': "accounts db' =
              set_balance (acc_id dst) (balance dst + to_cents (tf_amount f))
                (set_balance (acc_id src) (balance src - to_cents (tf_amount f)) (accounts db))"
      by (simp add: eq)
    have pos: "1 \<le> to_cents (tf_amount f)" using v by (rule transfer_validated_positive)
    have "dst \<in> set (accounts db)"
      using dst find_Some_mem unfolding Account_query_by_number_def by fast
    then have "0 \<le> balance dst" using inv nonneg_member by blast
    then have "0 \<le> balance dst + to_cents (tf_amount f)" using pos by linarith
    moreover have "0 \<le> balance src - to_cents (tf_amount f)" using le by linarith
    ultimately have "list_all (\<lambda>a. 0 \<le> balance a) (accounts db')"
      using inv unfolding db' balances_nonneg_def by (intro nonneg_set_balance)
    then show ?thesis using r by (simp add: balances_nonneg_def)
  qed
qed

lemma deposit_nonneg:
  assumes inv: "balances_nonneg db"
  shows "balances_nonneg (snd (deposit u m f t c db))"
proof -
  obtain out db' where r: "deposit u m f t c db = (out, db')" by (cases "deposit u m f t c db")
  show ?thesis
  proof (cases "out = Success")
    case False
    with deposit_route_cases [OF r] have "db' = db" by (auto dest: deposit_submit_failure)
    with inv r show ?thesis by simp
  next
    case True
    with deposit_route_cases [OF r] obtain uid
      where v: "DepositForm_validate (map acc_id (active_accounts db uid)) f"
        and s: "deposit_submit uid f t c db = (Success, db')" by auto
    from deposit_submit_success [OF s] obtain a
      where a: "Account_query_get db (df_account f) = Some a"
        and eq: "db' = db\<lparr>accounts :=
              set_balance (acc_id a) (balance a + to_cents (df_amount f)) (accounts db),
            transactions := transactions db @
              [\<lparr>from_account_id = None, to_account_id = Some (acc_id a),
                amount = to_cents (df_amount f), transaction_type = ''deposit'',
                description = Some (or_default (df_description f) ''Cash deposit''),
                timestamp = ist t\<rparr>]\<rparr>"
      by blast
    have db': "accounts db' =
              set_balance (acc_id a) (balance a + to_cents (df_amount f)) (accounts db)"
      by (simp add: eq)
    have pos: "1 \<le> to_cents (df_amount f)" using v by (rule deposit_validated_positive)
    have "a \<in> set (accounts db)"
      using a find_Some_mem unfolding Account_query_get_def by fast
    then have "0 \<le> balance a" using inv nonneg_member by blast
    then have "0 \<le> balance a + to_cents (df_amount f)" using pos by linarith
    then have "list_all (\<lambda>a. 0 \<le> balance a) (accounts db')"
      using inv unfolding db' balances_nonneg_def by (intro nonneg_set_balance)
    then show ?thesis using r by (simp add: balances_nonneg_def)
  qed
qed

lemma withdraw_nonneg:
  assumes inv: "balances_nonneg db"
  shows "balances_nonneg (snd (withdraw u m f t c db))"
proof -
  obtain out db' where r: "withdraw u m f t c db = (out, db')" by (cases "withdraw u m f t c db")
  show ?thesis
  proof (cases "out = Success")
    case False
    with withdraw_route_cases [OF r] have "db' = db" by (auto dest: withdraw_submit_failure)
    with inv r show ?thesis by simp
  next
    case True
    with withdraw_route_cases [OF r] obtain uid
      where s: "withdraw_submit uid f t c db = (Success, db')" by auto
    from withdraw_submit_success [OF s] obtain a
      where a: "Account_query_get db (wf_account f) = Some a"
        and le: "to_cents (wf_amount f) \<le> balance a"
        and eq: "db' = db\<lparr>accounts :=
              set_balance (acc_id a) (balance a - to_cents (wf_amount f)) (accounts db),
            transactions := transactions db @
              [\<lparr>from_account_id = Some (acc_id a), to_account_id = None,
                amount = to_cents (wf_amount f), transaction_type = ''withdrawal'',
                description = Some (or_default (wf_description f) ''Cash withdrawal''),
                timestamp = ist t\<rparr>]\<rparr>"
      by blast
    have db': "accounts db' =
              set_balance (acc_id a) (balance a - to_cents (wf_amount f)) (accounts db)"
      by (simp add: eq)
    have "0 \<le> balance a - to_cents (wf_amount f)" using le by linarith
    then have "list_all (\<lambda>a. 0 \<le> balance a) (accounts db')"
      using inv unfolding db' balances_nonneg_def by (intro nonneg_set_balance)
    then show ?thesis using r by (simp add: balances_nonneg_def)
  qed
qed

lemma handle_nonneg: "balances_nonneg db \<Longrightarrow> balances_nonneg (handle db r)"
  by (cases r) (simp_all add: transfer_nonneg deposit_nonneg withdraw_nonneg)

lemma handle_all_nonneg: "balances_nonneg db \<Longrightarrow> balances_nonneg (handle_all db rs)"
  unfolding handle_all_def by (induction rs arbitrary: db) (simp_all add: handle_nonneg)

lemma withdraw_exceeding_rejected:
  assumes "Account_query_get db (wf_account f) = Some a" "balance a < to_cents (wf_amount f)"
  shows "fst (withdraw u m f t c db) \<noteq> Success \<and> snd (withdraw u m f t c db) = db"
  using assms
  by (auto simp: withdraw_def withdraw_submit_def Let_def split: principal.splits)

lemma transfer_exceeding_rejected:
  assumes "Account_query_get db (tf_from_account f) = Some a" "balance a < to_cents (tf_amount f)"
  shows "fst (transfer u m f t c db) \<noteq> Success \<and> snd (transfer u m f t c db) = db"
  using assms
  by (auto simp: transfer_def transfer_submit_def Let_def split: principal.splits option.splits)

lemma Account_withdraw_nonneg: "0 \<le> balance a \<Longrightarrow> 0 \<le> balance (snd (Account_withdraw a n))"
  by (simp add: Account_withdraw_def)

lemma Account_deposit_nonneg: "0 \<le> balance a \<Longrightarrow> 0 < n \<Longrightarrow> 0 \<le> balance (Account_deposit a n)"
  by (simp add: Account_deposit_def)

section \<open>Non-negative balances\<close>

text \<open>
  Claim C3. Non-negativity is an invariant. From a database in which every balance is
  non-negative, any sequence of transfer, deposit and withdraw requests leads to a
  database in which every balance is non-negative: a validated amount is at least one
  cent, and a withdrawal or transfer whose amount exceeds the balance of the selected
  source account is rejected and leaves the database as it was. The methods
  \<^verbatim>\<open>Account.withdraw\<close> and \<^verbatim>\<open>Account.deposit\<close> (for a positive amount) keep a
  non-negative balance non-negative as well.
\<close>

theorem balances_never_negative:
  assumes "balances_nonneg db"
  shows "balances_nonneg (handle_all db rs)
       \<and> (\<forall>a u m f t c. Account_query_get db (wf_account f) = Some a
             \<and> balance a < to_cents (wf_amount f)
           \<longrightarrow> fst (withdraw u m f t c db) \<noteq> Success
             \<and> handle db (WithdrawRequest u m f t c) = db)
       \<and> (\<forall>a u m f t c. Account_query_get db (tf_from_account f) = Some a
             \<and> balance a < to_cents (tf_amount f)
           \<longrightarrow> fst (transfer u m f t c db) \<noteq> Success
             \<and> handle db (TransferRequest u m f t c) = db)
       \<and> (\<forall>a n. a \<in> set (accounts db) \<longrightarrow> 0 \<le> balance (snd (Account_withdraw a n)))
       \<and> (\<forall>a n. a \<in> set (accounts db) \<and> 0 < n \<longrightarrow> 0 \<le> balance (Account_deposit a n))"
  using assms handle_all_nonneg withdraw_exceeding_rejected transfer_exceeding_rejected
    nonneg_member Account_withdraw_nonneg Account_deposit_nonneg
  by simp

theorem balances_never_negative_witness:
  "balances_nonneg test_db
   \<and> balances_nonneg (handle_all test_db
        [TransferRequest (User 1) POST test_transfer_form 0 True,
         WithdrawRequest (User 1) POST
           \<lparr>wf_account = 1, wf_amount = Decimal 3000 (- 2), wf_description = []\<rparr> 0 True,
         DepositRequest (User 2) POST
           \<lparr>df_account = 2, df_amount = Decimal 5 (- 1), df_description = []\<rparr> 0 True])
   \<and> Account_query_get test_db 1 = Some sender_account
   \<and> balance sender_account < to_cents (Decimal 5001 (- 2))
   \<and> handle test_db (WithdrawRequest (User 1) POST
        \<lparr>wf_account = 1, wf_amount = Decimal 5001 (- 2), wf_description = []\<rparr> 0 True) = test_db
   \<and> handle test_db (TransferRequest (User 1) POST
        (test_transfer_form\<lparr>tf_amount := Decimal 5001 (- 2)\<rparr>) 0 True) = test_db
   \<and> sender_account \<in> set (accounts test_db)
   \<and> 0 \<le> balance (snd (Account_withdraw sender_account 5000))
   \<and> 0 \<le> balance (Account_deposit sender_account 1)"
proof -
  have inv: "balances_nonneg test_db"
    by (simp add: balances_nonneg_def test_db_def sender_account_def receiver_account_def)
  have src: "Account_query_get test_db 1 = Some sender_account"
    by (simp add: Account_query_get_def test_db_def sender_account_def)
  have less: "balance sender_account < to_cents (Decimal 5001 (- 2))"
    by (simp add: sender_account_def eval_defs)
  have mem: "sender_account \<in> set (accounts test_db)"
    by (simp add: test_db_def)
  note inst = balances_never_negative [OF inv]
  from inst have "balances_nonneg (handle_all test_db
        [TransferRequest (User 1) POST test_transfer_form 0 True,
         WithdrawRequest (User 1) POST
           \<lparr>wf_account = 1, wf_amount = Decimal 3000 (- 2), wf_description = []\<rparr> 0 True,
         DepositRequest (User 2) POST
           \<lparr>df_account = 2, df_amount = Decimal 5 (- 1), df_description = []\<rparr> 0 True])"
    by (rule conjunct1)
  moreover from inst src less
  have "handle test_db (WithdrawRequest (User 1) POST
        \<lparr>wf_account = 1, wf_amount = Decimal 5001 (- 2), wf_description = []\<rparr> 0 True) = test_db"
    by simp
  moreover from inst src less
  have "handle test_db (TransferRequest (User 1) POST
        (test_transfer_form\<lparr>tf_amount := Decimal 5001 (- 2)\<rparr>) 0 True) = test_db"
    by (simp add: test_transfer_form_def)
  moreover from inst mem
  have "0 \<le> balance (snd (Account_withdraw sender_account 5000))"
    and "0 \<le> balance (Account_deposit sender_account 1)"
    by simp_all
  ultimately show ?thesis using inv src less mem by simp
qed

section \<open>Order of the checks of the transfer route\<close>

lemma validated_source:
  assumes pk: "primary_key_ok db"
    and mem: "i \<in> set (map acc_id (active_accounts db uid))"
  shows "\<exists>a. Account_query_get db i = Some a \<and> user_id a = uid \<and> \<not> is_frozen a"
proof -
  from mem obtain a where a: "a \<in> set (accounts db)" "acc_id a = i"
    "user_id a = uid" "\<not> is_frozen a"
    by (auto simp: active_accounts_def)
  have "find (\<lambda>r. acc_id r = acc_id a) (accounts db) = Some a"
    using pk a(1) unfolding primary_key_ok_def by (rule find_distinct_key)
  with a show ?thesis by (auto simp: Account_query_get_def)
qed

lemma validated_destination:
  assumes "validate_to_account_id db n = None"
  shows "\<exists>d. Account_query_by_number db n = Some d \<and> \<not> is_frozen d"
  using assms by (auto simp: validate_to_account_id_def split: if_splits option.splits)

lemma transfer_form_preempts_checks:
  assumes pk: "primary_key_ok db"
  shows "fst (transfer current_user meth form utcnow commit_ok db)
           \<notin> {ErrorOccurred, InvalidAccount, SourceFrozen, DestinationNotFound, DestinationFrozen}"
proof -
  obtain out db' where r: "transfer current_user meth form utcnow commit_ok db = (out, db')"
    by (cases "transfer current_user meth form utcnow commit_ok db")
  from transfer_route_cases [OF r] show ?thesis
  proof (elim disjE exE conjE)
    assume "out \<in> {AdminRedirect, NoActiveAccount, RenderForm}"
    with r show ?thesis by auto
  next
    fix uid
    assume v: "TransferForm_validate (map acc_id (active_accounts db uid)) db form"
      and s: "transfer_submit uid form utcnow commit_ok db = (out, db')"
    from v have "tf_from_account form \<in> set (map acc_id (active_accounts db uid))"
      and "validate_to_account_id db (tf_to_account_id form) = None"
      by (simp_all add: TransferForm_validate_def)
    with validated_source [OF pk] validated_destination obtain a d
      where "Account_query_get db (tf_from_account form) = Some a" "user_id a = uid"
        "\<not> is_frozen a" "Account_query_by_number db (tf_to_account_id form) = Some d"
        "\<not> is_frozen d"
      by blast
    with s have "out \<in> {SelfTransferNotAllowed, InsufficientFunds, Success, OperationFailed}"
      by (auto simp: transfer_submit_def Let_def split: if_splits)
    with r show ?thesis by auto
  qed
qed

lemma transfer_outcome_first_failing:
  "fst (transfer current_user meth form utcnow commit_ok db) =
     (case first_failing (route_transfer_preconditions current_user meth form db) of
        Some err \<Rightarrow> err
      | None \<Rightarrow> if commit_ok then Success else OperationFailed)"
  by (auto simp: transfer_def transfer_submit_def route_transfer_preconditions_def Let_def
      split: principal.splits option.splits)

lemma transfer_nonpositive_amount:
  assumes "to_cents (tf_amount form) \<le> 0"
  shows "fst (transfer current_user meth form utcnow commit_ok db)
           \<in> {AdminRedirect, NoActiveAccount, RenderForm}"
proof -
  obtain out db' where r: "transfer current_user meth form utcnow commit_ok db = (out, db')"
    by (cases "transfer current_user meth form utcnow commit_ok db")
  from transfer_route_cases [OF r] show ?thesis
  proof (elim disjE exE conjE)
    assume "out \<in> {AdminRedirect, NoActiveAccount, RenderForm}"
    with r show ?thesis by simp
  next
    fix uid
    assume "TransferForm_validate (map acc_id (active_accounts db uid)) db form"
    then have "1 \<le> to_cents (tf_amount form)" by (rule transfer_validated_positive)
    with assms show ?thesis by simp
  qed
qed

text \<open>
  Claim C4, as the code has it. The transfer route reports the first failing check of
  this sequence: the requester is a user, not an admin; the requester has a non-frozen
  account; the submitted form validates (the source is one of the requester's non-frozen
  accounts, the destination is a ten-digit number of an existing, non-frozen account,
  the amount lies between 0.01 and 1,000,000, the description fits), otherwise the form
  is rendered again; the source row exists; the requester owns it; the source is not
  frozen (SourceFrozen); the destination number resolves (DestinationNotFound); the
  destination is not frozen (DestinationFrozen); source and destination ids differ
  (SelfTransferNotAllowed); the amount in cents is at most the source balance
  (InsufficientFunds). With no failing check the outcome is that of the commit. An
  amount that is not positive never reaches the balance check: it is refused by the
  form's validation and is never reported as InsufficientFunds.
\<close>

theorem transfer_first_failing_check:
  "fst (transfer current_user meth form utcnow commit_ok db) =
     (case first_failing (route_transfer_preconditions current_user meth form db) of
        Some err \<Rightarrow> err
      | None \<Rightarrow> if commit_ok then Success else OperationFailed)
   \<and> (to_cents (tf_amount form) \<le> 0 \<longrightarrow>
        fst (transfer current_user meth form utcnow commit_ok db)
          \<in> {AdminRedirect, NoActiveAccount, RenderForm})"
  using transfer_outcome_first_failing transfer_nonpositive_amount by blast

theorem transfer_first_failing_check_witness:
  "to_cents (tf_amount (test_transfer_form\<lparr>tf_amount := Decimal (- 500) (- 2)\<rparr>)) \<le> 0
   \<and> fst (transfer (User 1) POST (test_transfer_form\<lparr>tf_amount := Decimal (- 500) (- 2)\<rparr>)
          0 True test_db) = RenderForm
   \<and> first_failing (route_transfer_preconditions (User 1) POST
          (test_transfer_form\<lparr>tf_amount := Decimal (- 500) (- 2)\<rparr>) test_db) = Some RenderForm
   \<and> first_failing (route_transfer_preconditions (User 1) POST
          (test_transfer_form\<lparr>tf_amount := Decimal 6000 (- 2)\<rparr>) test_db)
        = Some InsufficientFunds
   \<and> fst (transfer (User 1) POST (test_transfer_form\<lparr>tf_amount := Decimal 6000 (- 2)\<rparr>)
          0 True test_db) = InsufficientFunds"
proof -
  have neg: "to_cents (tf_amount (test_transfer_form\<lparr>tf_amount := Decimal (- 500) (- 2)\<rparr>)) \<le> 0"
    by (simp add: eval_defs)
  have gate: "first_failing (route_transfer_preconditions (User 1) POST
          (test_transfer_form\<lparr>tf_amount := Decimal (- 500) (- 2)\<rparr>) test_db) = Some RenderForm"
    by (simp add: route_transfer_preconditions_def test_db_def test_transfer_form_def
        sender_account_def receiver_account_def eval_defs)
  have funds: "first_failing (route_transfer_preconditions (User 1) POST
          (test_transfer_form\<lparr>tf_amount := Decimal 6000 (- 2)\<rparr>) test_db)
        = Some InsufficientFunds"
    by (simp add: route_transfer_preconditions_def test_db_def test_transfer_form_def
        sender_account_def receiver_account_def eval_defs)
  from transfer_first_failing_check
    [of "User 1" POST "test_transfer_form\<lparr>tf_amount := Decimal (- 500) (- 2)\<rparr>" 0 True test_db]
    transfer_first_failing_check
    [of "User 1" POST "test_transfer_form\<lparr>tf_amount := Decimal 6000 (- 2)\<rparr>" 0 True test_db]
  show ?thesis using neg gate funds by simp
qed

text \<open>
  The claim as the specification words it fails on the code. First input: every check
  of the specification passes up to the fifth, the amount is minus 5.00, so the
  specification reports InsufficientFunds; the route renders the form again. Second
  input: the selected source account is frozen, so the specification reports
  SourceFrozen; the route, which offers only non-frozen accounts, reports that the
  user has no active account.
\<close>

theorem transfer_spec_order_counterexample:
  "Account_query_get test_db 1 = Some sender_account
   \<and> Account_query_by_number test_db ''2000000002'' = Some receiver_account
   \<and> first_failing (spec_transfer_preconditions sender_account (Some receiver_account)
        (to_cents (Decimal (- 500) (- 2)))) = Some InsufficientFunds
   \<and> fst (transfer (User 1) POST
        \<lparr>tf_from_account = 1, tf_to_account_id = ''2000000002'',
          tf_amount = Decimal (- 500) (- 2), tf_description = []\<rparr> 0 True test_db) = RenderForm
   \<and> Account_query_get frozen_db 1 = Some (sender_account\<lparr>is_frozen := True\<rparr>)
   \<and> first_failing (spec_transfer_preconditions (sender_account\<lparr>is_frozen := True\<rparr>)
        (Account_query_by_number frozen_db ''2000000002'') (to_cents (Decimal 2000 (- 2))))
        = Some SourceFrozen
   \<and> fst (transfer (User 1) POST test_transfer_form 0 True frozen_db) = NoActiveAccount"
  by (simp add: spec_transfer_preconditions_def test_db_def frozen_db_def test_transfer_form_def
      sender_account_def receiver_account_def eval_defs)

section \<open>Withdrawals\<close>

lemma choices_nonempty: "i \<in> set (map acc_id (active_accounts db uid)) \<Longrightarrow> active_accounts db uid \<noteq> []"
  by auto

lemma balance_of_set_balance:
  "Account_query_get db i = Some a \<Longrightarrow>
     balance_of (db\<lparr>accounts := set_balance i b (accounts db), transactions := ts\<rparr>) i = Some b"
  by (simp add: balance_of_def Account_query_get_def find_set_balance)

text \<open>
  Claim C5, as the code has it. A withdrawal request that passes the form's validation
  (its amount lies between 0.01 and 100,000, hence is positive, and its account is one
  of the requester's non-frozen accounts) is refused as InsufficientFunds exactly when
  the amount in cents exceeds the balance of the account, and then the database is
  unchanged. Otherwise, an amount equal to the whole balance
  included, a commit that succeeds lowers the balance by the amount and appends exactly
  one transaction row of type withdrawal, with the account as source, no destination
  and that amount; a commit that raises is rolled back. The method
  \<^verbatim>\<open>Account.withdraw\<close> decides by the same comparison and leaves the same balance.
\<close>

theorem withdraw_insufficient_funds:
  assumes pk: "primary_key_ok db"
    and v: "WithdrawForm_validate (map acc_id (active_accounts db uid)) form"
  shows "\<exists>account.
           Account_query_get db (wf_account form) = Some account
         \<and> 0 < to_cents (wf_amount form)
         \<and> (fst (withdraw (User uid) POST form utcnow commit_ok db) = InsufficientFunds
              \<longleftrightarrow> balance account < to_cents (wf_amount form))
         \<and> (balance account < to_cents (wf_amount form)
              \<longrightarrow> snd (withdraw (User uid) POST form utcnow commit_ok db) = db)
         \<and> (to_cents (wf_amount form) \<le> balance account \<and> commit_ok
              \<longrightarrow> withdraw (User uid) POST form utcnow commit_ok db =
                    (Success,
                     db\<lparr>accounts := set_balance (acc_id account)
                          (balance account - to_cents (wf_amount form)) (accounts db),
                        transactions := transactions db @
                          [\<lparr>from_account_id = Some (acc_id account), to_account_id = None,
                            amount = to_cents (wf_amount form),
                            transaction_type = ''withdrawal'',
                            description = Some (or_default (wf_description form)
                              ''Cash withdrawal''),
                            timestamp = ist utcnow\<rparr>]\<rparr>)
                \<and> balance_of (snd (withdraw (User uid) POST form utcnow commit_ok db))
                      (acc_id account) = Some (balance account - to_cents (wf_amount form)))
         \<and> (to_cents (wf_amount form) \<le> balance account \<and> \<not> commit_ok
              \<longrightarrow> withdraw (User uid) POST form utcnow commit_ok db = (OperationFailed, db))
         \<and> (fst (Account_withdraw account (to_cents (wf_amount form)))
              \<longleftrightarrow> to_cents (wf_amount form) \<le> balance account)
         \<and> (commit_ok \<longrightarrow>
              balance_of (snd (withdraw (User uid) POST form utcnow commit_ok db)) (acc_id account)
                = Some (balance (snd (Account_withdraw account (to_cents (wf_amount form))))))"
proof -
  from v have mem: "wf_account form \<in> set (map acc_id (active_accounts db uid))"
    by (simp add: WithdrawForm_validate_def)
  from validated_source [OF pk mem] obtain account
    where a: "Account_query_get db (wf_account form) = Some account"
      and own: "user_id account = uid"
    by blast
  have ne: "active_accounts db uid \<noteq> []" using mem by (rule choices_nonempty)
  have pos: "0 < to_cents (wf_amount form)" using withdraw_validated_positive [OF v] by simp
  have i: "acc_id account = wf_account form"
    using a find_Some_mem unfolding Account_query_get_def by fast
  have route: "withdraw (User uid) POST form utcnow c db = withdraw_submit uid form utcnow c db"
    for c
    using ne v by (simp add: withdraw_def)
  have before: "balance_of db (acc_id account) = Some (balance account)"
    using a i by (simp add: balance_of_def)
  show ?thesis
  proof (intro exI [of _ account] conjI impI)
    show "Account_query_get db (wf_account form) = Some account" by (rule a)
    show "0 < to_cents (wf_amount form)" by (rule pos)
    show "(fst (withdraw (User uid) POST form utcnow commit_ok db) = InsufficientFunds)
            = (balance account < to_cents (wf_amount form))"
      using a own by (simp add: route withdraw_submit_def Let_def)
    show "snd (withdraw (User uid) POST form utcnow commit_ok db) = db"
      if "balance account < to_cents (wf_amount form)"
      using a own that by (simp add: route withdraw_submit_def Let_def)
    show "withdraw (User uid) POST form utcnow commit_ok db =
                    (Success,
                     db\<lparr>accounts := set_balance (acc_id account)
                          (balance account - to_cents (wf_amount form)) (accounts db),
                        transactions := transactions db @
                          [\<lparr>from_account_id = Some (acc_id account), to_account_id = None,
                            amount = to_cents (wf_amount form),
                            transaction_type = ''withdrawal'',
                            description = Some (or_default (wf_description form)
                              ''Cash withdrawal''),
                            timestamp = ist utcnow\<rparr>]\<rparr>)"
      if "to_cents (wf_amount form) \<le> balance account \<and> commit_ok"
      using a own that by (simp add: route withdraw_submit_def Let_def)
    show "balance_of (snd (withdraw (User uid) POST form utcnow commit_ok db))
                      (acc_id account) = Some (balance account - to_cents (wf_amount form))"
      if "to_cents (wf_amount form) \<le> balance account \<and> commit_ok"
      using a own that balance_of_set_balance [OF a]
      by (simp add: route withdraw_submit_def Let_def i)
    show "withdraw (User uid) POST form utcnow commit_ok db = (OperationFailed, db)"
      if "to_cents (wf_amount form) \<le> balance account \<and> \<not> commit_ok"
      using a own that by (simp add: route withdraw_submit_def Let_def)
    show "fst (Account_withdraw account (to_cents (wf_amount form)))
            = (to_cents (wf_amount form) \<le> balance account)"
      by (simp add: Account_withdraw_def)
    show "balance_of (snd (withdraw (User uid) POST form utcnow commit_ok db)) (acc_id account)
                = Some (balance (snd (Account_withdraw account (to_cents (wf_amount form)))))"
      if commit_ok
      using a own that balance_of_set_balance [OF a] before
      by (simp add: route withdraw_submit_def Let_def i Account_withdraw_def)
  qed
qed

theorem withdraw_insufficient_funds_witness:
  "primary_key_ok test_db
   \<and> WithdrawForm_validate (map acc_id (active_accounts test_db 1))
        \<lparr>wf_account = 1, wf_amount = Decimal 500 0, wf_description = []\<rparr>
   \<and> balance sender_account < to_cents (Decimal 500 0)
   \<and> withdraw (User 1) POST \<lparr>wf_account = 1, wf_amount = Decimal 500 0, wf_description = []\<rparr>
        0 True test_db = (InsufficientFunds, test_db)
   \<and> WithdrawForm_validate (map acc_id (active_accounts test_db 1))
        \<lparr>wf_account = 1, wf_amount = Decimal 5000 (- 2), wf_description = []\<rparr>
   \<and> to_cents (Decimal 5000 (- 2)) = balance sender_account
   \<and> fst (withdraw (User 1) POST
        \<lparr>wf_account = 1, wf_amount = Decimal 5000 (- 2), wf_description = []\<rparr> 0 True test_db)
       = Success
   \<and> balance_of (snd (withdraw (User 1) POST
        \<lparr>wf_account = 1, wf_amount = Decimal 5000 (- 2), wf_description = []\<rparr> 0 True test_db)) 1
       = Some 0"
proof -
  have pk: "primary_key_ok test_db"
    by (simp add: primary_key_ok_def test_db_def sender_account_def receiver_account_def)
  have too_much: "WithdrawForm_validate (map acc_id (active_accounts test_db 1))
        \<lparr>wf_account = 1, wf_amount = Decimal 500 0, wf_description = []\<rparr>"
    by (simp add: test_db_def sender_account_def receiver_account_def eval_defs)
  have all_of_it: "WithdrawForm_validate (map acc_id (active_accounts test_db 1))
        \<lparr>wf_account = 1, wf_amount = Decimal 5000 (- 2), wf_description = []\<rparr>"
    by (simp add: test_db_def sender_account_def receiver_account_def eval_defs)
  have src: "Account_query_get test_db 1 = Some sender_account"
    by (simp add: Account_query_get_def test_db_def sender_account_def)
  have cents: "to_cents (Decimal 500 0) = 50000" "to_cents (Decimal 5000 (- 2)) = 5000"
    "balance sender_account = 5000" "acc_id sender_account = 1"
    by (simp_all add: sender_account_def eval_defs)
  from withdraw_insufficient_funds [OF pk too_much, of 0 True]
    withdraw_insufficient_funds [OF pk all_of_it, of 0 True]
  show ?thesis
    using pk too_much all_of_it
    by (simp add: src cents prod_eq_iff balance_of_def Account_query_get_def set_balance_def
        test_db_def sender_account_def receiver_account_def)
qed

text \<open>
  The claim as the specification words it fails on the code. First input: the amount,
  100,000.01, is positive and exceeds the balance of 50.00, so the specification
  reports InsufficientFunds; the route renders the form again, the amount being above
  the form's maximum. Second input: the amount, 10.00, is positive and within the
  balance, so the specification lowers the balance; the account is frozen, and the
  route, which offers only non-frozen accounts, turns the request away and changes
  nothing.
\<close>

theorem withdraw_spec_counterexample:
  "Account_query_get test_db 1 = Some sender_account
   \<and> 0 < to_cents (Decimal 10000001 (- 2))
   \<and> balance sender_account < to_cents (Decimal 10000001 (- 2))
   \<and> withdraw (User 1) POST
        \<lparr>wf_account = 1, wf_amount = Decimal 10000001 (- 2), wf_description = []\<rparr>
        0 True test_db = (RenderForm, test_db)
   \<and> Account_query_get frozen_db 1 = Some (sender_account\<lparr>is_frozen := True\<rparr>)
   \<and> 0 < to_cents (Decimal 1000 (- 2))
   \<and> to_cents (Decimal 1000 (- 2)) \<le> balance (sender_account\<lparr>is_frozen := True\<rparr>)
   \<and> withdraw (User 1) POST
        \<lparr>wf_account = 1, wf_amount = Decimal 1000 (- 2), wf_description = []\<rparr>
        0 True frozen_db = (NoActiveAccount, frozen_db)"
  by (simp add: test_db_def frozen_db_def sender_account_def receiver_account_def eval_defs)

section \<open>Deposits\<close>

lemma deposit_frozen_rejected:
  assumes pk: "primary_key_ok db"
    and a: "Account_query_get db (df_account form) = Some a"
    and frozen: "is_frozen a"
  shows "fst (deposit (User uid) meth form utcnow commit_ok db) \<in> {NoActiveAccount, RenderForm}
       \<and> snd (deposit (User uid) meth form utcnow commit_ok db) = db"
proof -
  have "\<not> DepositForm_validate (map acc_id (active_accounts db uid)) form"
  proof
    assume "DepositForm_validate (map acc_id (active_accounts db uid)) form"
    then have "df_account form \<in> set (map acc_id (active_accounts db uid))"
      by (simp add: DepositForm_validate_def)
    from validated_source [OF pk this] a frozen show False by auto
  qed
  then show ?thesis by (simp add: deposit_def Let_def)
qed

lemma deposit_active_accepted:
  assumes pk: "primary_key_ok db"
    and mem: "a \<in> set (accounts db)"
    and own: "user_id a = uid"
    and active: "\<not> is_frozen a"
    and sel: "df_account form = acc_id a"
    and fields: "DataRequired_int (df_account form)" "DataRequired_dec (df_amount form)"
      "NumberRange float_0_01 100000 (df_amount form)" "Optional_Length 255 (df_description form)"
  shows "0 < to_cents (df_amount form)
       \<and> deposit (User uid) POST form utcnow True db =
           (Success,
            db\<lparr>accounts := set_balance (acc_id a) (balance a + to_cents (df_amount form))
                 (accounts db),
               transactions := transactions db @
                 [\<lparr>from_account_id = None, to_account_id = Some (acc_id a),
                   amount = to_cents (df_amount form), transaction_type = ''deposit'',
                   description = Some (or_default (df_description form) ''Cash deposit''),
                   timestamp = ist utcnow\<rparr>]\<rparr>)
       \<and> balance_of db (acc_id a) = Some (balance a)
       \<and> balance_of (snd (deposit (User uid) POST form utcnow True db)) (acc_id a)
           = Some (balance a + to_cents (df_amount form))"
proof -
  have act: "a \<in> set (active_accounts db uid)"
    using mem own active by (simp add: active_accounts_def)
  then have ne: "active_accounts db uid \<noteq> []" by auto
  have v: "DepositForm_validate (map acc_id (active_accounts db uid)) form"
    using act sel fields by (simp add: DepositForm_validate_def)
  have get: "Account_query_get db (acc_id a) = Some a"
    unfolding Account_query_get_def
    using pk mem unfolding primary_key_ok_def by (rule find_distinct_key)
  have pos: "0 < to_cents (df_amount form)" using deposit_validated_positive [OF v] by simp
  have run: "deposit (User uid) POST form utcnow True db =
           (Success,
            db\<lparr>accounts := set_balance (acc_id a) (balance a + to_cents (df_amount form))
                 (accounts db),
               transactions := transactions db @
                 [\<lparr>from_account_id = None, to_account_id = Some (acc_id a),
                   amount = to_cents (df_amount form), transaction_type = ''deposit'',
                   description = Some (or_default (df_description form) ''Cash deposit''),
                   timestamp = ist utcnow\<rparr>]\<rparr>)"
    using ne v get own by (simp add: deposit_def deposit_submit_def Let_def sel)
  have before: "balance_of db (acc_id a) = Some (balance a)"
    by (simp add: balance_of_def get)
  have after: "balance_of (snd (deposit (User uid) POST form utcnow True db)) (acc_id a)
           = Some (balance a + to_cents (df_amount form))"
    by (simp only: run snd_conv balance_of_set_balance [OF get])
  show ?thesis using pos run before after by simp
qed

text \<open>
  Claim C6, as the code has it. The deposit route offers only the requester's
  non-frozen accounts. For an account of the requester that is not frozen, a submitted
  deposit whose fields validate (an amount between 0.01 and 100,000, hence positive) and
  whose commit succeeds is accepted: the balance of that account grows by the amount
  and one transaction row of type deposit, with the account as destination and no
  source, is appended. A deposit aimed at a frozen account is refused, with the database
  unchanged. The method \<^verbatim>\<open>Account.deposit\<close> itself looks at no frozen flag.
\<close>

theorem deposit_active_accounts_only:
  assumes "primary_key_ok db"
  shows "(a \<in> set (accounts db) \<and> user_id a = uid \<and> \<not> is_frozen a
          \<and> df_account form = acc_id a \<and> DataRequired_int (df_account form)
          \<and> DataRequired_dec (df_amount form)
          \<and> NumberRange float_0_01 100000 (df_amount form)
          \<and> Optional_Length 255 (df_description form)
          \<longrightarrow> 0 < to_cents (df_amount form)
            \<and> deposit (User uid) POST form utcnow True db =
                (Success,
                 db\<lparr>accounts := set_balance (acc_id a) (balance a + to_cents (df_amount form))
                      (accounts db),
                    transactions := transactions db @
                      [\<lparr>from_account_id = None, to_account_id = Some (acc_id a),
                        amount = to_cents (df_amount form), transaction_type = ''deposit'',
                        description = Some (or_default (df_description form) ''Cash deposit''),
                        timestamp = ist utcnow\<rparr>]\<rparr>)
            \<and> balance_of db (acc_id a) = Some (balance a)
            \<and> balance_of (snd (deposit (User uid) POST form utcnow True db)) (acc_id a)
                = Some (balance a + to_cents (df_amount form)))
       \<and> (Account_query_get db (df_account form) = Some b \<and> is_frozen b
          \<longrightarrow> fst (deposit (User uid) meth form utcnow commit_ok db)
                \<in> {NoActiveAccount, RenderForm}
            \<and> snd (deposit (User uid) meth form utcnow commit_ok db) = db)
       \<and> balance (Account_deposit b n) = balance b + n
       \<and> is_frozen (Account_deposit b n) = is_frozen b"
proof (intro conjI)
  show "a \<in> set (accounts db) \<and> user_id a = uid \<and> \<not> is_frozen a
          \<and> df_account form = acc_id a \<and> DataRequired_int (df_account form)
          \<and> DataRequired_dec (df_amount form)
          \<and> NumberRange float_0_01 100000 (df_amount form)
          \<and> Optional_Length 255 (df_description form)
          \<longrightarrow> 0 < to_cents (df_amount form)
            \<and> deposit (User uid) POST form utcnow True db =
                (Success,
                 db\<lparr>accounts := set_balance (acc_id a) (balance a + to_cents (df_amount form))
                      (accounts db),
                    transactions := transactions db @
                      [\<lparr>from_account_id = None, to_account_id = Some (acc_id a),
                        amount = to_cents (df_amount form), transaction_type = ''deposit'',
                        description = Some (or_default (df_description form) ''Cash deposit''),
                        timestamp = ist utcnow\<rparr>]\<rparr>)
            \<and> balance_of db (acc_id a) = Some (balance a)
            \<and> balance_of (snd (deposit (User uid) POST form utcnow True db)) (acc_id a)
                = Some (balance a + to_cents (df_amount form))"
  proof
    assume h: "a \<in> set (accounts db) \<and> user_id a = uid \<and> \<not> is_frozen a
          \<and> df_account form = acc_id a \<and> DataRequired_int (df_account form)
          \<and> DataRequired_dec (df_amount form)
          \<and> NumberRange float_0_01 100000 (df_amount form)
          \<and> Optional_Length 255 (df_description form)"
    show "0 < to_cents (df_amount form)
            \<and> deposit (User uid) POST form utcnow True db =
                (Success,
                 db\<lparr>accounts := set_balance (acc_id a) (balance a + to_cents (df_amount form))
                      (accounts db),
                    transactions := transactions db @
                      [\<lparr>from_account_id = None, to_account_id = Some (acc_id a),
                        amount = to_cents (df_amount form), transaction_type = ''deposit'',
                        description = Some (or_default (df_description form) ''Cash deposit''),
                        timestamp = ist utcnow\<rparr>]\<rparr>)
            \<and> balance_of db (acc_id a) = Some (balance a)
            \<and> balance_of (snd (deposit (User uid) POST form utcnow True db)) (acc_id a)
                = Some (balance a + to_cents (df_amount form))"
      by (rule deposit_active_accepted [OF assms]) (use h in blast)+
  qed
  show "Account_query_get db (df_account form) = Some b \<and> is_frozen b
          \<longrightarrow> fst (deposit (User uid) meth form utcnow commit_ok db)
                \<in> {NoActiveAccount, RenderForm}
            \<and> snd (deposit (User uid) meth form utcnow commit_ok db) = db"
    using deposit_frozen_rejected [OF assms] by blast
  show "balance (Account_deposit b n) = balance b + n"
    and "is_frozen (Account_deposit b n) = is_frozen b"
    by (simp_all add: Account_deposit_def)
qed

theorem deposit_active_accounts_only_witness:
  "primary_key_ok test_db
   \<and> receiver_account \<in> set (accounts test_db) \<and> \<not> is_frozen receiver_account
   \<and> deposit (User 2) POST \<lparr>df_account = 2, df_amount = Decimal 1050 (- 2), df_description = []\<rparr>
        0 True test_db =
       (Success,
        test_db\<lparr>accounts := set_balance 2 2050 (accounts test_db),
          transactions := [\<lparr>from_account_id = None, to_account_id = Some 2, amount = 1050,
            transaction_type = ''deposit'', description = Some ''Cash deposit'',
            timestamp = 19800000000\<rparr>]\<rparr>)
   \<and> primary_key_ok frozen_db
   \<and> Account_query_get frozen_db 1 = Some (sender_account\<lparr>is_frozen := True\<rparr>)
   \<and> snd (deposit (User 1) POST
        \<lparr>df_account = 1, df_amount = Decimal 1050 (- 2), df_description = []\<rparr> 0 True frozen_db)
       = frozen_db"
proof -
  have pk: "primary_key_ok test_db"
    by (simp add: primary_key_ok_def test_db_def sender_account_def receiver_account_def)
  have pkf: "primary_key_ok frozen_db"
    by (simp add: primary_key_ok_def frozen_db_def)
  have mem: "receiver_account \<in> set (accounts test_db)" by (simp add: test_db_def)
  have rec: "user_id receiver_account = 2" "\<not> is_frozen receiver_account"
    "acc_id receiver_account = 2" "balance receiver_account = 1000"
    by (simp_all add: receiver_account_def)
  have fields: "DataRequired_int 2" "DataRequired_dec (Decimal 1050 (- 2))"
    "NumberRange float_0_01 100000 (Decimal 1050 (- 2))" "Optional_Length 255 []"
    "to_cents (Decimal 1050 (- 2)) = 1050"
    by (simp_all add: eval_defs)
  have frozen: "Account_query_get frozen_db 1 = Some (sender_account\<lparr>is_frozen := True\<rparr>)"
    "is_frozen (sender_account\<lparr>is_frozen := True\<rparr>)"
    by (simp_all add: Account_query_get_def frozen_db_def sender_account_def)
  from deposit_active_accounts_only [OF pk, where a = receiver_account and uid = 2
      and form = "\<lparr>df_account = 2, df_amount = Decimal 1050 (- 2), df_description = []\<rparr>"
      and utcnow = 0]
    mem rec fields
  have accepted: "deposit (User 2) POST
      \<lparr>df_account = 2, df_amount = Decimal 1050 (- 2), df_description = []\<rparr> 0 True test_db =
       (Success,
        test_db\<lparr>accounts := set_balance 2 2050 (accounts test_db),
          transactions := [\<lparr>from_account_id = None, to_account_id = Some 2, amount = 1050,
            transaction_type = ''deposit'', description = Some ''Cash deposit'',
            timestamp = 19800000000\<rparr>]\<rparr>)"
    by (simp add: or_default_def ist_def test_db_def)
  from deposit_active_accounts_only [OF pkf, where uid = 1 and meth = POST
      and form = "\<lparr>df_account = 1, df_amount = Decimal 1050 (- 2), df_description = []\<rparr>"
      and utcnow = 0 and commit_ok = True and b = "sender_account\<lparr>is_frozen := True\<rparr>"]
    frozen
  have refused: "snd (deposit (User 1) POST
        \<lparr>df_account = 1, df_amount = Decimal 1050 (- 2), df_description = []\<rparr> 0 True frozen_db)
       = frozen_db"
    by simp
  show ?thesis using pk pkf mem rec frozen accepted refused by simp
qed

text \<open>
  The claim as the specification words it fails on the code: the only account of user 1
  exists and is frozen, the amount is 10.50, and the route turns the deposit away
  (the user has no active account) and changes nothing.
\<close>

theorem deposit_frozen_counterexample:
  "Account_query_get frozen_db 1 = Some (sender_account\<lparr>is_frozen := True\<rparr>)
   \<and> 0 < to_cents (Decimal 1050 (- 2))
   \<and> deposit (User 1) POST \<lparr>df_account = 1, df_amount = Decimal 1050 (- 2), df_description = []\<rparr>
        0 True frozen_db = (NoActiveAccount, frozen_db)"
  by (simp add: frozen_db_def sender_account_def eval_defs)

section \<open>Transaction records\<close>

lemma transfer_appends:
  "transactions (snd (transfer u m f t c db)) = transactions db
   \<or> (\<exists>x. transactions (snd (transfer u m f t c db)) = transactions db @ [x]
          \<and> transfer_shaped x)"
proof -
  obtain out db' where r: "transfer u m f t c db = (out, db')" by (cases "transfer u m f t c db")
  show ?thesis
  proof (cases "out = Success")
    case False
    with transfer_route_cases [OF r] have "db' = db" by (auto dest: transfer_submit_failure)
    with r show ?thesis by simp
  next
    case True
    with transfer_route_cases [OF r] obtain uid
      where v: "TransferForm_validate (map acc_id (active_accounts db uid)) db f"
        and s: "transfer_submit uid f t c db = (Success, db')" by auto
    have "0 < to_cents (tf_amount f)" using transfer_validated_positive [OF v] by simp
    with transfer_submit_success [OF s] r show ?thesis
      by (auto simp: transfer_shaped_def)
  qed
qed

lemma deposit_appends:
  "transactions (snd (deposit u m f t c db)) = transactions db
   \<or> (\<exists>x. transactions (snd (deposit u m f t c db)) = transactions db @ [x]
          \<and> deposit_shaped x)"
proof -
  obtain out db' where r: "deposit u m f t c db = (out, db')" by (cases "deposit u m f t c db")
  show ?thesis
  proof (cases "out = Success")
    case False
    with deposit_route_cases [OF r] have "db' = db" by (auto dest: deposit_submit_failure)
    with r show ?thesis by simp
  next
    case True
    with deposit_route_cases [OF r] obtain uid
      where v: "DepositForm_validate (map acc_id (active_accounts db uid)) f"
        and s: "deposit_submit uid f t c db = (Success, db')" by auto
    have "0 < to_cents (df_amount f)" using deposit_validated_positive [OF v] by simp
    with deposit_submit_success [OF s] r show ?thesis
      by (auto simp: deposit_shaped_def)
  qed
qed

lemma withdraw_appends:
  "transactions (snd (withdraw u m f t c db)) = transactions db
   \<or> (\<exists>x. transactions (snd (withdraw u m f t c db)) = transactions db @ [x]
          \<and> withdrawal_shaped x)"
proof -
  obtain out db' where r: "withdraw u m f t c db = (out, db')" by (cases "withdraw u m f t c db")
  show ?thesis
  proof (cases "out = Success")
    case False
    with withdraw_route_cases [OF r] have "db' = db" by (auto dest: withdraw_submit_failure)
    with r show ?thesis by simp
  next
    case True
    with withdraw_route_cases [OF r] obtain uid
      where v: "WithdrawForm_validate (map acc_id (active_accounts db uid)) f"
        and s: "withdraw_submit uid f t c db = (Success, db')" by auto
    have "0 < to_cents (wf_amount f)" using withdraw_validated_positive [OF v] by simp
    with withdraw_submit_success [OF s] r show ?thesis
      by (auto simp: withdrawal_shaped_def)
  qed
qed

lemma handle_appends:
  "\<exists>new. transactions (handle db r) = transactions db @ new
     \<and> list_all (\<lambda>x. deposit_shaped x \<or> withdrawal_shaped x \<or> transfer_shaped x) new"
proof (cases r)
  case (TransferRequest u m f t c)
  from transfer_appends [of u m f t c db] show ?thesis
  proof
    assume "transactions (snd (transfer u m f t c db)) = transactions db"
    then show ?thesis using TransferRequest by (intro exI [of _ "[]"]) simp
  next
    assume "\<exists>x. transactions (snd (transfer u m f t c db)) = transactions db @ [x]
          \<and> transfer_shaped x"
    then obtain x where "transactions (snd (transfer u m f t c db)) = transactions db @ [x]"
      "transfer_shaped x" by blast
    then show ?thesis using TransferRequest by (intro exI [of _ "[x]"]) simp
  qed
next
  case (DepositRequest u m f t c)
  from deposit_appends [of u m f t c db] show ?thesis
  proof
    assume "transactions (snd (deposit u m f t c db)) = transactions db"
    then show ?thesis using DepositRequest by (intro exI [of _ "[]"]) simp
  next
    assume "\<exists>x. transactions (snd (deposit u m f t c db)) = transactions db @ [x]
          \<and> deposit_shaped x"
    then obtain x where "transactions (snd (deposit u m f t c db)) = transactions db @ [x]"
      "deposit_shaped x" by blast
    then show ?thesis using DepositRequest by (intro exI [of _ "[x]"]) simp
  qed
next
  case (WithdrawRequest u m f t c)
  from withdraw_appends [of u m f t c db] show ?thesis
  proof
    assume "transactions (snd (withdraw u m f t c db)) = transactions db"
    then show ?thesis using WithdrawRequest by (intro exI [of _ "[]"]) simp
  next
    assume "\<exists>x. transactions (snd (withdraw u m f t c db)) = transactions db @ [x]
          \<and> withdrawal_shaped x"
    then obtain x where "transactions (snd (withdraw u m f t c db)) = transactions db @ [x]"
      "withdrawal_shaped x" by blast
    then show ?thesis using WithdrawRequest by (intro exI [of _ "[x]"]) simp
  qed
qed

lemma handle_all_appends:
  "\<exists>new. transactions (handle_all db rs) = transactions db @ new
     \<and> list_all (\<lambda>x. deposit_shaped x \<or> withdrawal_shaped x \<or> transfer_shaped x) new"
proof (induction rs arbitrary: db)
  case Nil
  show ?case by (simp add: handle_all_def)
next
  case (Cons r rs)
  from handle_appends [of db r] obtain first
    where first: "transactions (handle db r) = transactions db @ first"
      "list_all (\<lambda>x. deposit_shaped x \<or> withdrawal_shaped x \<or> transfer_shaped x) first"
    by blast
  from Cons.IH [of "handle db r"] obtain rest
    where rest: "transactions (handle_all (handle db r) rs) = transactions (handle db r) @ rest"
      "list_all (\<lambda>x. deposit_shaped x \<or> withdrawal_shaped x \<or> transfer_shaped x) rest"
    by blast
  have "handle_all db (r # rs) = handle_all (handle db r) rs" by (simp add: handle_all_def)
  with first rest show ?case by (intro exI [of _ "first @ rest"]) simp
qed

text \<open>
  Claim C7. Each of the three ledger routes either leaves the transaction table as it
  was or appends exactly one row, and that row has a positive amount, the type of the
  route that wrote it, and its account references set by that type: a deposit has no
  source and a destination, a withdrawal has a source and no destination, a transfer
  has both. Hence every row written by any sequence of ledger requests has one of the
  three shapes.
\<close>

theorem transaction_records_well_formed:
  "(transactions (snd (deposit u m dform t c db)) = transactions db
      \<or> (\<exists>x. transactions (snd (deposit u m dform t c db)) = transactions db @ [x]
            \<and> deposit_shaped x))
   \<and> (transactions (snd (withdraw u m wform t c db)) = transactions db
      \<or> (\<exists>x. transactions (snd (withdraw u m wform t c db)) = transactions db @ [x]
            \<and> withdrawal_shaped x))
   \<and> (transactions (snd (transfer u m tform t c db)) = transactions db
      \<or> (\<exists>x. transactions (snd (transfer u m tform t c db)) = transactions db @ [x]
            \<and> transfer_shaped x))
   \<and> (\<exists>new. transactions (handle_all db rs) = transactions db @ new
        \<and> list_all (\<lambda>x. deposit_shaped x \<or> withdrawal_shaped x \<or> transfer_shaped x) new)"
  by (intro conjI deposit_appends withdraw_appends transfer_appends handle_all_appends)

theorem transaction_records_well_formed_witness:
  "transactions test_db = []
   \<and> transactions (snd (transfer (User 1) POST test_transfer_form 0 True test_db))
       = [\<lparr>from_account_id = Some 1, to_account_id = Some 2, amount = 2000,
            transaction_type = ''transfer'', description = Some ''Test Transfer'',
            timestamp = 19800000000\<rparr>]
   \<and> transfer_shaped \<lparr>from_account_id = Some 1, to_account_id = Some 2, amount = 2000,
            transaction_type = ''transfer'', description = Some ''Test Transfer'',
            timestamp = 19800000000\<rparr>"
proof -
  have before: "transactions test_db = []" by (simp add: test_db_def)
  have after: "transactions (snd (transfer (User 1) POST test_transfer_form 0 True test_db))
       = [\<lparr>from_account_id = Some 1, to_account_id = Some 2, amount = 2000,
            transaction_type = ''transfer'', description = Some ''Test Transfer'',
            timestamp = 19800000000\<rparr>]"
    by (simp add: test_transfer_success test_db_after_def)
  from transaction_records_well_formed
    [where u = "User 1" and m = POST and tform = test_transfer_form and t = 0 and c = True
       and db = test_db]
  have "transfer_shaped \<lparr>from_account_id = Some 1, to_account_id = Some 2, amount = 2000,
            transaction_type = ''transfer'', description = Some ''Test Transfer'',
            timestamp = 19800000000\<rparr>"
    by (simp add: before after)
  with before after show ?thesis by simp
qed

section \<open>Ownership\<close>

lemma transfer_unowned:
  assumes "Account_query_get db (tf_from_account f) = Some a" "user_id a \<noteq> uid"
  shows "fst (transfer (User uid) m f t c db) \<in> {NoActiveAccount, RenderForm, InvalidAccount}
       \<and> snd (transfer (User uid) m f t c db) = db"
  using assms by (simp add: transfer_def transfer_submit_def Let_def)

lemma deposit_unowned:
  assumes "Account_query_get db (df_account f) = Some a" "user_id a \<noteq> uid"
  shows "fst (deposit (User uid) m f t c db) \<in> {NoActiveAccount, RenderForm, InvalidAccount}
       \<and> snd (deposit (User uid) m f t c db) = db"
  using assms by (simp add: deposit_def deposit_submit_def Let_def)

lemma withdraw_unowned:
  assumes "Account_query_get db (wf_account f) = Some a" "user_id a \<noteq> uid"
  shows "fst (withdraw (User uid) m f t c db) \<in> {NoActiveAccount, RenderForm, InvalidAccount}
       \<and> snd (withdraw (User uid) m f t c db) = db"
  using assms by (simp add: withdraw_def withdraw_submit_def Let_def)

text \<open>
  Claim C10. When the account selected as the source of a transfer, or as the account
  of a deposit or a withdrawal, exists but belongs to another user than the requester,
  the route fails before it changes anything: it reports an invalid account, or it has
  already turned the request away (no active account, or a form that does not
  validate), and the database is the one it was given. For the same account
  \<^verbatim>\<open>check_account_ownership\<close> aborts with 403.
\<close>

theorem unowned_account_rejected:
  assumes "user_id a \<noteq> uid"
  shows "(Account_query_get db (tf_from_account tform) = Some a \<longrightarrow>
            fst (transfer (User uid) m tform t c db)
              \<in> {NoActiveAccount, RenderForm, InvalidAccount}
          \<and> snd (transfer (User uid) m tform t c db) = db)
       \<and> (Account_query_get db (df_account dform) = Some a \<longrightarrow>
            fst (deposit (User uid) m dform t c db)
              \<in> {NoActiveAccount, RenderForm, InvalidAccount}
          \<and> snd (deposit (User uid) m dform t c db) = db)
       \<and> (Account_query_get db (wf_account wform) = Some a \<longrightarrow>
            fst (withdraw (User uid) m wform t c db)
              \<in> {NoActiveAccount, RenderForm, InvalidAccount}
          \<and> snd (withdraw (User uid) m wform t c db) = db)
       \<and> (Account_query_get db i = Some a \<longrightarrow> check_account_ownership uid db i = Inl 403)"
proof (intro conjI impI)
  show "check_account_ownership uid db i = Inl 403" if "Account_query_get db i = Some a"
    using that assms by (simp add: check_account_ownership_def)
  show "fst (transfer (User uid) m tform t c db) \<in> {NoActiveAccount, RenderForm, InvalidAccount}"
    and "snd (transfer (User uid) m tform t c db) = db"
    if "Account_query_get db (tf_from_account tform) = Some a"
    using transfer_unowned [OF that assms] by simp_all
  show "fst (deposit (User uid) m dform t c db) \<in> {NoActiveAccount, RenderForm, InvalidAccount}"
    and "snd (deposit (User uid) m dform t c db) = db"
    if "Account_query_get db (df_account dform) = Some a"
    using deposit_unowned [OF that assms] by simp_all
  show "fst (withdraw (User uid) m wform t c db) \<in> {NoActiveAccount, RenderForm, InvalidAccount}"
    and "snd (withdraw (User uid) m wform t c db) = db"
    if "Account_query_get db (wf_account wform) = Some a"
    using withdraw_unowned [OF that assms] by simp_all
qed

theorem unowned_account_rejected_witness:
  "user_id receiver_account \<noteq> 1
   \<and> Account_query_get test_db 2 = Some receiver_account
   \<and> snd (transfer (User 1) POST (test_transfer_form\<lparr>tf_from_account := 2\<rparr>) 0 True test_db)
       = test_db
   \<and> snd (deposit (User 1) POST
        \<lparr>df_account = 2, df_amount = Decimal 1050 (- 2), df_description = []\<rparr> 0 True test_db)
       = test_db
   \<and> snd (withdraw (User 1) POST
        \<lparr>wf_account = 2, wf_amount = Decimal 1050 (- 2), wf_description = []\<rparr> 0 True test_db)
       = test_db
   \<and> check_account_ownership 1 test_db 2 = Inl 403"
proof -
  have other: "user_id receiver_account \<noteq> 1" by (simp add: receiver_account_def)
  have found: "Account_query_get test_db 2 = Some receiver_account"
    by (simp add: Account_query_get_def test_db_def sender_account_def receiver_account_def)
  from unowned_account_rejected [OF other, where db = test_db and i = 2 and m = POST
      and t = 0 and c = True
      and tform = "test_transfer_form\<lparr>tf_from_account := 2\<rparr>"
      and dform = "\<lparr>df_account = 2, df_amount = Decimal 1050 (- 2), df_description = []\<rparr>"
      and wform = "\<lparr>wf_account = 2, wf_amount = Decimal 1050 (- 2), wf_description = []\<rparr>"]
  show ?thesis using other found by (simp add: test_transfer_form_def)
qed

section \<open>Transaction history\<close>

lemma get_all_transactions_set:
  "set (get_all_transactions db a) =
     {x \<in> set (transactions db). from_account_id x = Some (acc_id a)}
     \<union> {x \<in> set (transactions db). to_account_id x = Some (acc_id a)}"
  by (auto simp: get_all_transactions_def Let_def)

lemma get_all_transactions_mset:
  "mset (get_all_transactions db a) =
     mset (filter (\<lambda>x. from_account_id x = Some (acc_id a)) (transactions db))
     + mset (filter (\<lambda>x. to_account_id x = Some (acc_id a)) (transactions db))"
  by (simp add: get_all_transactions_def Let_def)

lemma get_all_transactions_sorted:
  "sorted_wrt (\<lambda>x y. timestamp y \<le> timestamp x) (get_all_transactions db a)"
proof -
  have "sorted (map (\<lambda>x. - timestamp x) (get_all_transactions db a))"
    unfolding get_all_transactions_def Let_def by (rule sorted_sort_key)
  then show ?thesis by (simp add: sorted_map)
qed

lemma get_all_transactions_stable:
  "filter (\<lambda>x. timestamp x = k) (get_all_transactions db a) =
     filter (\<lambda>x. timestamp x = k)
       (filter (\<lambda>x. from_account_id x = Some (acc_id a)) (transactions db)
        @ filter (\<lambda>x. to_account_id x = Some (acc_id a)) (transactions db))"
proof -
  have "filter (\<lambda>x. - timestamp x = - k) (get_all_transactions db a) =
     filter (\<lambda>x. - timestamp x = - k)
       (filter (\<lambda>x. from_account_id x = Some (acc_id a)) (transactions db)
        @ filter (\<lambda>x. to_account_id x = Some (acc_id a)) (transactions db))"
    unfolding get_all_transactions_def Let_def by (rule sort_key_stable)
  then show ?thesis by simp
qed

lemma get_all_transactions_reads:
  "transactions db' = transactions db \<Longrightarrow> acc_id a' = acc_id a \<Longrightarrow>
     get_all_transactions db' a' = get_all_transactions db a"
  by (simp add: get_all_transactions_def)

text \<open>
  Claim C8. The history of an account holds exactly the transactions in which the
  account is the source together with those in which it is the destination, ordered by
  timestamp, latest first (rows of equal timestamp keep the order sent before received,
  each in table order). It is a function of the transaction table and the account's id
  alone: read again with that table untouched, it is the same list.
\<close>

theorem get_all_transactions_history:
  "set (get_all_transactions db a) =
     {x \<in> set (transactions db). from_account_id x = Some (acc_id a)}
     \<union> {x \<in> set (transactions db). to_account_id x = Some (acc_id a)}
   \<and> mset (get_all_transactions db a) =
     mset (filter (\<lambda>x. from_account_id x = Some (acc_id a)) (transactions db))
     + mset (filter (\<lambda>x. to_account_id x = Some (acc_id a)) (transactions db))
   \<and> sorted_wrt (\<lambda>x y. timestamp y \<le> timestamp x) (get_all_transactions db a)
   \<and> filter (\<lambda>x. timestamp x = k) (get_all_transactions db a) =
     filter (\<lambda>x. timestamp x = k)
       (filter (\<lambda>x. from_account_id x = Some (acc_id a)) (transactions db)
        @ filter (\<lambda>x. to_account_id x = Some (acc_id a)) (transactions db))
   \<and> (transactions db' = transactions db \<and> acc_id a' = acc_id a
        \<longrightarrow> get_all_transactions db' a' = get_all_transactions db a)"
  using get_all_transactions_set [of db a] get_all_transactions_mset [of db a]
    get_all_transactions_sorted [of db a] get_all_transactions_stable [of k db a]
    get_all_transactions_reads [of db' db a' a]
  by (intro conjI impI) simp_all

theorem get_all_transactions_history_witness:
  "transactions (history_db\<lparr>accounts := []\<rparr>) = transactions history_db
   \<and> acc_id (sender_account\<lparr>balance := 0\<rparr>) = acc_id sender_account
   \<and> get_all_transactions (history_db\<lparr>accounts := []\<rparr>) (sender_account\<lparr>balance := 0\<rparr>)
       = get_all_transactions history_db sender_account
   \<and> get_all_transactions history_db sender_account =
       [\<lparr>from_account_id = None, to_account_id = Some 1, amount = 700,
          transaction_type = ''deposit'', description = None, timestamp = 30\<rparr>,
        \<lparr>from_account_id = Some 1, to_account_id = Some 2, amount = 2000,
          transaction_type = ''transfer'', description = None, timestamp = 10\<rparr>]"
proof -
  have same: "transactions (history_db\<lparr>accounts := []\<rparr>) = transactions history_db"
    "acc_id (sender_account\<lparr>balance := 0\<rparr>) = acc_id sender_account"
    by simp_all
  from get_all_transactions_history
    [where db = history_db and a = sender_account and db' = "history_db\<lparr>accounts := []\<rparr>"
       and a' = "sender_account\<lparr>balance := 0\<rparr>"] same
  have again: "get_all_transactions (history_db\<lparr>accounts := []\<rparr>) (sender_account\<lparr>balance := 0\<rparr>)
       = get_all_transactions history_db sender_account"
    by blast
  have "get_all_transactions history_db sender_account =
       [\<lparr>from_account_id = None, to_account_id = Some 1, amount = 700,
          transaction_type = ''deposit'', description = None, timestamp = 30\<rparr>,
        \<lparr>from_account_id = Some 1, to_account_id = Some 2, amount = 2000,
          transaction_type = ''transfer'', description = None, timestamp = 10\<rparr>]"
    by (simp add: get_all_transactions_def history_db_def sender_account_def)
  with same again show ?thesis by simp
qed

section \<open>Account numbers\<close>

lemma str_digit_decimal: "is_decimal_digit (str_digit d)"
  by (cases d) (simp_all add: is_decimal_digit_def)

lemma candidate_length: "length (candidate rnd) = 10"
  by (simp add: candidate_def)

lemma candidate_digits: "list_all is_decimal_digit (candidate rnd)"
  by (simp add: candidate_def list_all_iff str_digit_decimal)

lemma by_number_None:
  "Account_query_by_number db s = None \<longleftrightarrow> s \<notin> account_number ` set (accounts db)"
  by (auto simp: Account_query_by_number_def find_None_iff)

lemma nth_candidate_0: "nth_candidate rnd 0 = candidate rnd"
  by (simp add: nth_candidate_def)

lemma nth_candidate_Suc: "nth_candidate rnd (Suc k) = nth_candidate (later_draws rnd) k"
  by (simp add: nth_candidate_def funpow_swap1)

lemma generate_returns_first_free:
  assumes "generate_account_number db rnd = Some s"
  shows "\<exists>k. s = nth_candidate rnd k
           \<and> Account_query_by_number db s = None
           \<and> (\<forall>j<k. Account_query_by_number db (nth_candidate rnd j) \<noteq> None)"
proof (rule generate_account_number.raw_induct
    [where P = "\<lambda>db rnd s. \<exists>k. s = nth_candidate rnd k
           \<and> Account_query_by_number db s = None
           \<and> (\<forall>j<k. Account_query_by_number db (nth_candidate rnd j) \<noteq> None)",
     OF _ assms])
  fix gen :: "database \<Rightarrow> (nat \<Rightarrow> digit) \<Rightarrow> string option"
    and db rnd s
  assume IH: "\<And>db rnd s. gen db rnd = Some s \<Longrightarrow>
      \<exists>k. s = nth_candidate rnd k \<and> Account_query_by_number db s = None
        \<and> (\<forall>j<k. Account_query_by_number db (nth_candidate rnd j) \<noteq> None)"
    and step: "(let account_num = candidate rnd;
                   existing = Account_query_by_number db account_num
               in if existing = None then Some account_num
                  else gen db (later_draws rnd)) = Some s"
  show "\<exists>k. s = nth_candidate rnd k \<and> Account_query_by_number db s = None
        \<and> (\<forall>j<k. Account_query_by_number db (nth_candidate rnd j) \<noteq> None)"
  proof (cases "Account_query_by_number db (candidate rnd) = None")
    case True
    with step have "s = candidate rnd" by (simp add: Let_def)
    with True show ?thesis by (intro exI [of _ 0]) (simp add: nth_candidate_0)
  next
    case False
    with step have "gen db (later_draws rnd) = Some s" by (simp add: Let_def)
    from IH [OF this] obtain k where k: "s = nth_candidate (later_draws rnd) k"
      "Account_query_by_number db s = None"
      "\<forall>j<k. Account_query_by_number db (nth_candidate (later_draws rnd) j) \<noteq> None"
      by blast
    have "\<forall>j<Suc k. Account_query_by_number db (nth_candidate rnd j) \<noteq> None"
    proof (intro allI impI)
      fix j assume "j < Suc k"
      then show "Account_query_by_number db (nth_candidate rnd j) \<noteq> None"
        using False k(3) by (cases j) (simp_all add: nth_candidate_0 nth_candidate_Suc)
    qed
    with k show ?thesis by (intro exI [of _ "Suc k"]) (simp add: nth_candidate_Suc)
  qed
qed

lemma generate_returns:
  "Account_query_by_number db (nth_candidate rnd k) = None \<Longrightarrow>
     generate_account_number db rnd \<noteq> None"
proof (induction k arbitrary: rnd)
  case 0
  then show ?case
    by (subst generate_account_number.simps) (simp add: nth_candidate_0 Let_def)
next
  case (Suc k)
  then have "generate_account_number db (later_draws rnd) \<noteq> None"
    by (simp add: nth_candidate_Suc)
  then show ?case
    by (subst generate_account_number.simps) (simp add: Let_def)
qed

lemma nth_candidate_shape:
  "length (nth_candidate rnd k) = 10 \<and> list_all is_decimal_digit (nth_candidate rnd k)"
  by (simp add: nth_candidate_def candidate_length candidate_digits)

lemma create_account_unique:
  assumes u: "account_numbers_unique db"
    and r: "create_account cu m f rnd new_id c db = Some (out, db')"
  shows "account_numbers_unique db'"
proof (cases "out = Success")
  case False
  with r have "db' = db"
    by (auto simp: create_account_def Let_def split: principal.splits if_splits option.splits)
  with u show ?thesis by simp
next
  case True
  with r obtain uid number where g: "generate_account_number db rnd = Some number"
    and db': "db' = db\<lparr>accounts := accounts db @
        [\<lparr>acc_id = new_id, user_id = uid, account_number = number,
          account_type = caf_account_type f,
          balance = to_cents (caf_initial_deposit f), is_frozen = False\<rparr>]\<rparr>"
    by (auto simp: create_account_def Let_def split: principal.splits if_splits option.splits)
  from generate_returns_first_free [OF g] have "Account_query_by_number db number = None"
    by blast
  then have "number \<notin> account_number ` set (accounts db)" by (simp add: by_number_None)
  with u show ?thesis by (simp add: account_numbers_unique_def db')
qed

text \<open>
  Claim C9. Whenever \<^verbatim>\<open>generate_account_number\<close> returns, its result is a string of
  exactly ten decimal digits that is the account number of no account in the database
  at the time of the check: it is the first candidate drawn that collides with none,
  every earlier candidate having collided and been drawn again. It returns exactly when
  the random source ever yields such a candidate. An account created with the
  generated number keeps the account numbers of the table pairwise distinct.
\<close>

theorem generate_account_number_unique:
  "(generate_account_number db rnd = Some s \<longrightarrow>
      length s = 10 \<and> list_all is_decimal_digit s
      \<and> s \<notin> account_number ` set (accounts db)
      \<and> (\<exists>k. s = nth_candidate rnd k
            \<and> (\<forall>j<k. nth_candidate rnd j \<in> account_number ` set (accounts db))))
   \<and> ((\<exists>k. nth_candidate rnd k \<notin> account_number ` set (accounts db))
        \<longleftrightarrow> generate_account_number db rnd \<noteq> None)
   \<and> (account_numbers_unique db
        \<and> create_account cu m f rnd new_id c db = Some (out, db')
      \<longrightarrow> account_numbers_unique db')"
proof (intro conjI impI)
  assume g: "generate_account_number db rnd = Some s"
  from generate_returns_first_free [OF g] obtain k where k: "s = nth_candidate rnd k"
    "Account_query_by_number db s = None"
    "\<forall>j<k. Account_query_by_number db (nth_candidate rnd j) \<noteq> None"
    by blast
  show "length s = 10" and "list_all is_decimal_digit s"
    using k(1) nth_candidate_shape by simp_all
  show "s \<notin> account_number ` set (accounts db)" using k(2) by (simp add: by_number_None)
  show "\<exists>k. s = nth_candidate rnd k
            \<and> (\<forall>j<k. nth_candidate rnd j \<in> account_number ` set (accounts db))"
    using k(1,3) by (intro exI [of _ k]) (simp add: by_number_None)
next
  show "(\<exists>k. nth_candidate rnd k \<notin> account_number ` set (accounts db))
        \<longleftrightarrow> generate_account_number db rnd \<noteq> None"
  proof
    assume "\<exists>k. nth_candidate rnd k \<notin> account_number ` set (accounts db)"
    then obtain k where "Account_query_by_number db (nth_candidate rnd k) = None"
      by (auto simp: by_number_None)
    then show "generate_account_number db rnd \<noteq> None" by (rule generate_returns)
  next
    assume "generate_account_number db rnd \<noteq> None"
    then obtain s where "generate_account_number db rnd = Some s" by blast
    from generate_returns_first_free [OF this]
    show "\<exists>k. nth_candidate rnd k \<notin> account_number ` set (accounts db)"
      by (auto simp: by_number_None)
  qed
next
  assume "account_numbers_unique db \<and> create_account cu m f rnd new_id c db = Some (out, db')"
  then show "account_numbers_unique db'" using create_account_unique by blast
qed

theorem generate_account_number_unique_witness:
  "nth_candidate example_draws 0 = ''1000000001''
   \<and> nth_candidate example_draws 0 \<in> account_number ` set (accounts test_db)
   \<and> nth_candidate example_draws 1 = ''7777777777''
   \<and> nth_candidate example_draws 1 \<notin> account_number ` set (accounts test_db)
   \<and> generate_account_number test_db example_draws = Some ''7777777777''
   \<and> account_numbers_unique test_db
   \<and> create_account (User 1) POST
        \<lparr>caf_account_type = ''savings'', caf_initial_deposit = Decimal 10 0\<rparr>
        example_draws 3 True test_db =
       Some (Success,
         test_db\<lparr>accounts := accounts test_db @
           [\<lparr>acc_id = 3, user_id = 1, account_number = ''7777777777'',
             account_type = ''savings'', balance = 1000, is_frozen = False\<rparr>]\<rparr>)
   \<and> account_numbers_unique
        (test_db\<lparr>accounts := accounts test_db @
           [\<lparr>acc_id = 3, user_id = 1, account_number = ''7777777777'',
             account_type = ''savings'', balance = 1000, is_frozen = False\<rparr>]\<rparr>)"
proof -
  have ten: "[0..<10] = [0, 1, 2, 3, 4, 5, 6, 7, 8, 9]" by (simp add: upt_rec)
  have c0: "nth_candidate example_draws 0 = ''1000000001''"
    by (simp add: nth_candidate_def candidate_def example_draws_def ten)
  have c1: "nth_candidate example_draws 1 = ''7777777777''"
    by (simp add: nth_candidate_def candidate_def later_draws_def example_draws_def ten)
  have taken: "nth_candidate example_draws 0 \<in> account_number ` set (accounts test_db)"
    unfolding c0 by (simp add: test_db_def sender_account_def)
  have free: "nth_candidate example_draws 1 \<notin> account_number ` set (accounts test_db)"
    unfolding c1 by (simp add: test_db_def sender_account_def receiver_account_def)
  have uniq: "account_numbers_unique test_db"
    by (simp add: account_numbers_unique_def test_db_def sender_account_def
        receiver_account_def)
  note inst = generate_account_number_unique [where db = test_db and rnd = example_draws]
  from inst [THEN conjunct2, THEN conjunct1] free
  obtain s where s: "generate_account_number test_db example_draws = Some s"
    by blast
  with inst [where s = s, THEN conjunct1] obtain k where k: "s = nth_candidate example_draws k"
    "\<forall>j<k. nth_candidate example_draws j \<in> account_number ` set (accounts test_db)"
    "s \<notin> account_number ` set (accounts test_db)"
    by blast
  have "k \<noteq> 0" using k(1,3) taken by auto
  moreover have "\<not> 1 < k" using k(2) free by auto
  ultimately have "k = 1" by simp
  with s k(1) c1 have gen: "generate_account_number test_db example_draws = Some ''7777777777''"
    by simp
  have made: "create_account (User 1) POST
        \<lparr>caf_account_type = ''savings'', caf_initial_deposit = Decimal 10 0\<rparr>
        example_draws 3 True test_db =
       Some (Success,
         test_db\<lparr>accounts := accounts test_db @
           [\<lparr>acc_id = 3, user_id = 1, account_number = ''7777777777'',
             account_type = ''savings'', balance = 1000, is_frozen = False\<rparr>]\<rparr>)"
    by (simp add: create_account_def CreateAccountForm_validate_def gen eval_defs)
  from generate_account_number_unique [where db = test_db and rnd = example_draws
      and cu = "User 1" and m = POST and new_id = 3 and c = True
      and f = "\<lparr>caf_account_type = ''savings'', caf_initial_deposit = Decimal 10 0\<rparr>",
      THEN conjunct2, THEN conjunct2]
    uniq made
  have "account_numbers_unique
        (test_db\<lparr>accounts := accounts test_db @
           [\<lparr>acc_id = 3, user_id = 1, account_number = ''7777777777'',
             account_type = ''savings'', balance = 1000, is_frozen = False\<rparr>]\<rparr>)"
    by blast
  with c0 c1 taken free gen uniq made show ?thesis by simp
qed

end
